theory Spec2Isabelle
  imports Complex_Main "HOL-Library.AList"
begin

section \<open>Values, errors and the Python operations the handlers use\<close>

text \<open>
  The application (\<^verbatim>\<open>src/app.py\<close>) keeps every collection as a JSON file and works on
  what \<^verbatim>\<open>json.load\<close> returns: lists, dicts, strings, numbers, booleans and
  \<^verbatim>\<open>None\<close>. A dict is an association list in insertion order whose keys are distinct,
  as \<^verbatim>\<open>json.load\<close> produces them. A finite float is carried by its exact rational value;
  \<^verbatim>\<open>NaN\<close> and the infinities are not represented.
\<close>

datatype jval =
    JNull
  | JBool bool
  | JInt int
  | JFloat rat
  | JStr string
  | JArr "jval list"
  | JObj "(string \<times> jval) list"

text \<open>The exceptions the handlers can let escape.\<close>

datatype pyerr =
    KeyError | TypeError | AttributeError | ValueError | OSError
  | FileNotFoundError | UnicodeDecodeError | RecursionError

text \<open>
  Functions of Python's library and of \<^verbatim>\<open>bcrypt\<close> and \<^verbatim>\<open>werkzeug\<close> that the
  application calls and that are not part of this repository. They are parameters of the
  model: \<open>int_of\<close> is \<^verbatim>\<open>int(s)\<close> on a string and \<open>float_of\<close> is \<^verbatim>\<open>float(s)\<close>
  (\<open>None\<close> when they raise \<^verbatim>\<open>ValueError\<close>), \<open>checkpw\<close> is \<^verbatim>\<open>bcrypt.checkpw\<close> on the
  password and the stored hash (\<open>None\<close> when it raises \<^verbatim>\<open>ValueError\<close>), \<open>str_of\<close> is
  \<^verbatim>\<open>str(v)\<close> as an f-string formats a value that is not a string, \<open>float_inc\<close> is
  \<^verbatim>\<open>x + 1\<close> on a float, and \<open>secure_filename\<close> is werkzeug's function of that name.
\<close>

record lib =
  int_of :: "string \<Rightarrow> int option"
  float_of :: "string \<Rightarrow> rat option"
  checkpw :: "string \<Rightarrow> string \<Rightarrow> bool option"
  str_of :: "jval \<Rightarrow> string"
  float_inc :: "rat \<Rightarrow> rat"
  secure_filename :: "string \<Rightarrow> string"

text \<open>Numbers compare by value across \<^verbatim>\<open>bool\<close>, \<^verbatim>\<open>int\<close> and \<^verbatim>\<open>float\<close>.\<close>

fun num_of :: "jval \<Rightarrow> rat option" where
  "num_of (JBool b) = Some (if b then 1 else 0)"
| "num_of (JInt i) = Some (of_int i)"
| "num_of (JFloat q) = Some q"
| "num_of _ = None"

text \<open>Python's \<^verbatim>\<open>==\<close> on such values: lists element by element, dicts key by key.\<close>

fun py_eq :: "jval \<Rightarrow> jval \<Rightarrow> bool" where
  "py_eq (JArr xs) (JArr ys) = list_all2 py_eq xs ys"
| "py_eq (JObj a) (JObj b) =
     (fst ` set a = fst ` set b \<and>
      (\<forall>(k, v) \<in> set a. case map_of b k of Some u \<Rightarrow> py_eq v u | None \<Rightarrow> False))"
| "py_eq a b =
     (case (num_of a, num_of b) of
        (Some p, Some q) \<Rightarrow> p = q
      | _ \<Rightarrow> a = b)"

text \<open>Truthiness, as \<^verbatim>\<open>if v:\<close> tests it.\<close>

fun truthy :: "jval \<Rightarrow> bool" where
  "truthy JNull = False"
| "truthy (JBool b) = b"
| "truthy (JInt i) = (i \<noteq> 0)"
| "truthy (JFloat q) = (q \<noteq> 0)"
| "truthy (JStr s) = (s \<noteq> [])"
| "truthy (JArr xs) = (xs \<noteq> [])"
| "truthy (JObj kvs) = (kvs \<noteq> [])"

text \<open>\<^verbatim>\<open>r[k]\<close> with a string key: only a dict has one; a missing key raises.\<close>

fun py_getitem :: "jval \<Rightarrow> string \<Rightarrow> pyerr + jval" where
  "py_getitem (JObj kvs) k = (case map_of kvs k of None \<Rightarrow> Inl KeyError | Some v \<Rightarrow> Inr v)"
| "py_getitem _ k = Inl TypeError"

text \<open>\<^verbatim>\<open>r.get(k, d)\<close>: a method of dicts only.\<close>

fun py_get :: "jval \<Rightarrow> string \<Rightarrow> jval \<Rightarrow> pyerr + jval" where
  "py_get (JObj kvs) k d = (case map_of kvs k of None \<Rightarrow> Inr d | Some v \<Rightarrow> Inr v)"
| "py_get _ k d = Inl AttributeError"

text \<open>\<^verbatim>\<open>r[k] = v\<close>: replaces the value in place, or adds the key at the end.\<close>

fun py_setitem :: "jval \<Rightarrow> string \<Rightarrow> jval \<Rightarrow> pyerr + jval" where
  "py_setitem (JObj kvs) k v = Inr (JObj (AList.update k v kvs))"
| "py_setitem _ k v = Inl TypeError"

text \<open>
  Iterating a value: a list gives its elements, a dict its keys, a string its characters;
  anything else is not iterable.
\<close>

fun py_iter :: "jval \<Rightarrow> pyerr + jval list" where
  "py_iter (JArr xs) = Inr xs"
| "py_iter (JObj kvs) = Inr (map (\<lambda>kv. JStr (fst kv)) kvs)"
| "py_iter (JStr s) = Inr (map (\<lambda>c. JStr [c]) s)"
| "py_iter _ = Inl TypeError"

text \<open>\<^verbatim>\<open>xs.append(x)\<close>: a method of lists only.\<close>

fun py_append :: "jval \<Rightarrow> jval \<Rightarrow> pyerr + jval" where
  "py_append (JArr xs) x = Inr (JArr (xs @ [x]))"
| "py_append _ x = Inl AttributeError"

text \<open>How an f-string renders a value.\<close>

fun fmt :: "lib \<Rightarrow> jval \<Rightarrow> string" where
  "fmt L (JStr s) = s"
| "fmt L v = str_of L v"

text \<open>Sequencing of computations that may raise.\<close>

fun ebind :: "pyerr + 'a \<Rightarrow> ('a \<Rightarrow> pyerr + 'b) \<Rightarrow> pyerr + 'b" where
  "ebind (Inl e) f = Inl e"
| "ebind (Inr x) f = f x"

text \<open>The test \<^verbatim>\<open>r[k] == v\<close> of the lookups and filters.\<close>

definition key_is :: "string \<Rightarrow> jval \<Rightarrow> jval \<Rightarrow> pyerr + bool" where
  "key_is k v r = ebind (py_getitem r k) (\<lambda>u. Inr (py_eq u v))"

text \<open>
  \<^verbatim>\<open>next((x for x in xs if p(x)), None)\<close>: the first element that passes, with the elements
  before and after it, so that a later assignment to the element can be written back in
  place. The generator stops at the first hit: elements after it are never tested.
\<close>

fun find_first ::
  "(jval \<Rightarrow> pyerr + bool) \<Rightarrow> jval list \<Rightarrow> pyerr + (jval list \<times> jval \<times> jval list) option" where
  "find_first p [] = Inr None"
| "find_first p (x # xs) =
     (case p x of
        Inl e \<Rightarrow> Inl e
      | Inr True \<Rightarrow> Inr (Some ([], x, xs))
      | Inr False \<Rightarrow>
          (case find_first p xs of
             Inl e \<Rightarrow> Inl e
           | Inr None \<Rightarrow> Inr None
           | Inr (Some (pre, y, post)) \<Rightarrow> Inr (Some (x # pre, y, post))))"

text \<open>\<^verbatim>\<open>[x for x in xs if p(x)]\<close>: every element is tested.\<close>

fun filter_py :: "(jval \<Rightarrow> pyerr + bool) \<Rightarrow> jval list \<Rightarrow> pyerr + jval list" where
  "filter_py p [] = Inr []"
| "filter_py p (x # xs) =
     (case p x of
        Inl e \<Rightarrow> Inl e
      | Inr b \<Rightarrow>
          (case filter_py p xs of
             Inl e \<Rightarrow> Inl e
           | Inr ys \<Rightarrow> Inr (if b then x # ys else ys)))"

text \<open>\<^verbatim>\<open>[f(x) for x in xs]\<close>.\<close>

fun map_py :: "(jval \<Rightarrow> pyerr + 'a) \<Rightarrow> jval list \<Rightarrow> pyerr + 'a list" where
  "map_py f [] = Inr []"
| "map_py f (x # xs) =
     (case f x of
        Inl e \<Rightarrow> Inl e
      | Inr y \<Rightarrow> (case map_py f xs of Inl e \<Rightarrow> Inl e | Inr ys \<Rightarrow> Inr (y # ys)))"

section \<open>The JSON store, as the handlers see it\<close>

text \<open>
  The handlers see a file through \<^verbatim>\<open>read_json_file\<close> only, so their state keeps of
  each file what \<^verbatim>\<open>open\<close> and \<^verbatim>\<open>json.load\<close> make of its bytes: an exception that
  \<^verbatim>\<open>read_json_file\<close> does not catch (\<^verbatim>\<open>UnicodeDecodeError\<close> on bytes that are not
  text, \<^verbatim>\<open>ValueError\<close> on an integer literal beyond the digit limit,
  \<^verbatim>\<open>PermissionError\<close>, ...), a \<^verbatim>\<open>JSONDecodeError\<close>, or the decoded value. The bytes
  themselves, the directory and the two library functions are the subject of the next
  section, which also shows that this view is exact. A handler's write is taken to
  succeed: the data directory exists.
\<close>

datatype content = Unreadable pyerr | Malformed string | Wellformed jval

type_synonym store = "string \<Rightarrow> content option"

fun read_json_file :: "store \<Rightarrow> string \<Rightarrow> pyerr + jval" where
  "read_json_file fs filepath =
     (case fs filepath of
        None \<Rightarrow> Inr (JArr [])
      | Some (Unreadable e) \<Rightarrow> Inl e
      | Some (Malformed txt) \<Rightarrow> Inr (JArr [])
      | Some (Wellformed v) \<Rightarrow> Inr v)"

fun write_json_file :: "store \<Rightarrow> string \<Rightarrow> jval \<Rightarrow> store" where
  "write_json_file fs filepath data = fs(filepath \<mapsto> Wellformed data)"

section \<open>The JSON store, on the bytes of the disk\<close>

text \<open>
  \<^verbatim>\<open>json.load\<close> and \<^verbatim>\<open>json.dump\<close> belong to Python's library, not to this
  repository; they are parameters. \<open>loads\<close> is \<^verbatim>\<open>json.loads\<close> on the text of a file:
  it returns a value, raises \<^verbatim>\<open>JSONDecodeError\<close> (\<open>Rejected\<close>), or raises something
  else (\<^verbatim>\<open>ValueError\<close> on an integer literal beyond the digit limit,
  \<^verbatim>\<open>RecursionError\<close> on deep nesting). \<open>dumps\<close> is the text that
  \<^verbatim>\<open>json.dump(data, f, indent=2)\<close> writes; it is plain ASCII.
\<close>

datatype loads_outcome = Loaded jval | Rejected | Raises pyerr

record json =
  loads :: "string \<Rightarrow> loads_outcome"
  dumps :: "jval \<Rightarrow> string"

text \<open>
  \<^verbatim>\<open>open(filepath, 'r')\<close> reads text: the bytes are decoded as UTF-8, the encoding of
  the platforms the application runs on, and a byte sequence that is not UTF-8 raises
  \<^verbatim>\<open>UnicodeDecodeError\<close>. A text is kept as its UTF-8 bytes.
\<close>

definition byte :: "char \<Rightarrow> nat" where
  "byte c = of_char c"

definition between :: "nat \<Rightarrow> nat \<Rightarrow> char \<Rightarrow> bool" where
  "between lo hi c = (lo \<le> byte c \<and> byte c \<le> hi)"

text \<open>
  Well-formed UTF-8: one byte below 0x80; a lead byte 0xC2 to 0xDF, 0xE0 to 0xEF or
  0xF0 to 0xF4 with one, two or three continuation bytes 0x80 to 0xBF, where the first
  continuation byte is further restricted after 0xE0, 0xED, 0xF0 and 0xF4 (no overlong
  form, no surrogate, nothing beyond U+10FFFF).
\<close>

fun utf8_valid :: "string \<Rightarrow> bool" where
  "utf8_valid [] = True"
| "utf8_valid (c # cs) =
     (if byte c < 128 then utf8_valid cs
      else if between 194 223 c then
        (case cs of
           c1 # r \<Rightarrow> between 128 191 c1 \<and> utf8_valid r
         | _ \<Rightarrow> False)
      else if between 224 239 c then
        (case cs of
           c1 # c2 # r \<Rightarrow>
             between (if byte c = 224 then 160 else 128) (if byte c = 237 then 159 else 191) c1 \<and>
             between 128 191 c2 \<and> utf8_valid r
         | _ \<Rightarrow> False)
      else if between 240 244 c then
        (case cs of
           c1 # c2 # c3 # r \<Rightarrow>
             between (if byte c = 240 then 144 else 128) (if byte c = 244 then 143 else 191) c1 \<and>
             between 128 191 c2 \<and> between 128 191 c3 \<and> utf8_valid r
         | _ \<Rightarrow> False)
      else False)"

text \<open>Text mode turns \<^verbatim>\<open>\r\n\<close> and \<^verbatim>\<open>\r\<close> into \<^verbatim>\<open>\n\<close>.\<close>

fun universal_newlines :: "string \<Rightarrow> string" where
  "universal_newlines [] = []"
| "universal_newlines (c # cs) =
     (if byte c = 13 then
        (case cs of
           c1 # r \<Rightarrow> if byte c1 = 10 then c1 # universal_newlines r
                    else CHR 0x0A # universal_newlines cs
         | [] \<Rightarrow> [CHR 0x0A])
      else c # universal_newlines cs)"

text \<open>
  The disk: the directories that exist and the bytes of each file. A file can only be
  opened, for reading or for writing, in a directory that exists; a path without a
  directory part is in the working directory.
\<close>

record disk =
  folders :: "string set"
  contents :: "string \<Rightarrow> string option"

definition dirname :: "string \<Rightarrow> string" where
  "dirname filepath =
     (if CHR ''/'' \<in> set filepath
      then rev (tl (dropWhile (\<lambda>c. c \<noteq> CHR ''/'') (rev filepath)))
      else [])"

definition dir_exists :: "disk \<Rightarrow> string \<Rightarrow> bool" where
  "dir_exists d filepath = (dirname filepath = [] \<or> dirname filepath \<in> folders d)"

text \<open>
  \<^verbatim>\<open>read_json_file\<close>: \<^verbatim>\<open>FileNotFoundError\<close> and \<^verbatim>\<open>JSONDecodeError\<close> are caught and
  give the empty list; every other exception escapes.
\<close>

definition read_json_file_disk :: "json \<Rightarrow> disk \<Rightarrow> string \<Rightarrow> pyerr + jval" where
  "read_json_file_disk J d filepath =
     (if \<not> dir_exists d filepath then Inr (JArr [])
      else
        case contents d filepath of
          None \<Rightarrow> Inr (JArr [])
        | Some bytes \<Rightarrow>
            if \<not> utf8_valid bytes then Inl UnicodeDecodeError
            else
              case loads J (universal_newlines bytes) of
                Loaded v \<Rightarrow> Inr v
              | Rejected \<Rightarrow> Inr (JArr [])
              | Raises e \<Rightarrow> Inl e)"

text \<open>
  \<^verbatim>\<open>write_json_file\<close>: \<^verbatim>\<open>open(filepath, 'w')\<close> raises \<^verbatim>\<open>FileNotFoundError\<close> when
  the directory is missing (nothing creates it), and otherwise the file holds what
  \<^verbatim>\<open>json.dump\<close> writes.
\<close>

definition write_json_file_disk :: "json \<Rightarrow> disk \<Rightarrow> string \<Rightarrow> jval \<Rightarrow> pyerr + disk" where
  "write_json_file_disk J d filepath data =
     (if \<not> dir_exists d filepath then Inl FileNotFoundError
      else Inr (d\<lparr>contents := (contents d)(filepath \<mapsto> dumps J data)\<rparr>))"

text \<open>
  \<^verbatim>\<open>write_json_file(X, read_json_file(X))\<close>, and the disk it leaves: the disk is as it
  was when either call raises.
\<close>

definition save_load :: "json \<Rightarrow> disk \<Rightarrow> string \<Rightarrow> pyerr + disk" where
  "save_load J d filepath =
     ebind (read_json_file_disk J d filepath) (write_json_file_disk J d filepath)"

definition after_save_load :: "json \<Rightarrow> disk \<Rightarrow> string \<Rightarrow> disk" where
  "after_save_load J d filepath =
     (case save_load J d filepath of Inr d' \<Rightarrow> d' | Inl e \<Rightarrow> d)"



section \<open>Requests, responses and the state a handler works on\<close>

datatype http_method = GET | POST

text \<open>
  What a handler reads of a request: the method, the form fields, the file name of the
  \<^verbatim>\<open>resume\<close> upload when one was sent, and the readings of \<^verbatim>\<open>datetime.now()\<close> in the
  three formats the application uses (\<^verbatim>\<open>%Y-%m-%d\<close>, \<^verbatim>\<open>%H:%M:%S\<close>,
  \<^verbatim>\<open>%Y%m%d_%H%M%S_\<close>).
\<close>

record request =
  req_method :: http_method
  form :: "(string \<times> string) list"
  upload :: "string option"
  today :: string
  clock :: string
  stamp :: string

datatype response =
    Redirect string "(string \<times> jval) list"
  | Render string "(string \<times> jval) list"

text \<open>
  The state: the JSON files, the session of the caller, the flashed messages
  (message, category) and the names of the files saved under \<^verbatim>\<open>data/files\<close>.
\<close>

record world =
  files :: store
  session :: "(string \<times> jval) list"
  flashes :: "(string \<times> string) list"
  saved_files :: "string list"

text \<open>
  A handler returns a response or lets an exception escape; what it changed before the
  exception stays changed.
\<close>

type_synonym 'a run = "world \<Rightarrow> (pyerr + 'a) \<times> world"

type_synonym handler = "response run"

definition ret :: "'a \<Rightarrow> 'a run" where
  "ret x w = (Inr x, w)"

definition lift :: "pyerr + 'a \<Rightarrow> 'a run" where
  "lift r w = (r, w)"

definition bnd :: "'a run \<Rightarrow> ('a \<Rightarrow> 'b run) \<Rightarrow> 'b run" where
  "bnd m f w = (case m w of (Inl e, w') \<Rightarrow> (Inl e, w') | (Inr x, w') \<Rightarrow> f x w')"

definition flash :: "string \<Rightarrow> string \<Rightarrow> unit run" where
  "flash message category w = (Inr (), w\<lparr>flashes := flashes w @ [(message, category)]\<rparr>)"

definition load :: "string \<Rightarrow> jval run" where
  "load filepath w = (read_json_file (files w) filepath, w)"

definition save :: "string \<Rightarrow> jval \<Rightarrow> unit run" where
  "save filepath data w = (Inr (), w\<lparr>files := write_json_file (files w) filepath data\<rparr>)"

definition session_has :: "string \<Rightarrow> bool run" where
  "session_has k w = (Inr (map_of (session w) k \<noteq> None), w)"

text \<open>\<^verbatim>\<open>session.get(k)\<close>: \<^verbatim>\<open>None\<close> for a key that is not there.\<close>

definition sget :: "(string \<times> jval) list \<Rightarrow> string \<Rightarrow> jval" where
  "sget s k = (case map_of s k of None \<Rightarrow> JNull | Some v \<Rightarrow> v)"

definition session_get :: "string \<Rightarrow> jval run" where
  "session_get k w = (Inr (sget (session w) k), w)"

definition session_set :: "string \<Rightarrow> jval \<Rightarrow> unit run" where
  "session_set k v w = (Inr (), w\<lparr>session := AList.update k v (session w)\<rparr>)"

text \<open>\<^verbatim>\<open>flash(...)\<close> followed by \<^verbatim>\<open>return ...\<close>.\<close>

definition flash_return :: "string \<Rightarrow> string \<Rightarrow> response \<Rightarrow> handler" where
  "flash_return message category r = bnd (flash message category) (\<lambda>_. ret r)"

subsection \<open>Form fields\<close>

definition form_get :: "request \<Rightarrow> string \<Rightarrow> string option" where
  "form_get rq k = map_of (form rq) k"

text \<open>A form value as it is stored in a record: \<^verbatim>\<open>None\<close> when the field is absent.\<close>

fun field :: "string option \<Rightarrow> jval" where
  "field None = JNull"
| "field (Some s) = JStr s"

text \<open>\<^verbatim>\<open>request.form.get(k, d)\<close> with a string default.\<close>

definition form_get_default :: "request \<Rightarrow> string \<Rightarrow> string \<Rightarrow> string" where
  "form_get_default rq k d = (case form_get rq k of None \<Rightarrow> d | Some s \<Rightarrow> s)"

text \<open>\<^verbatim>\<open>request.form.get(k) or None\<close>.\<close>

definition form_get_or_none :: "request \<Rightarrow> string \<Rightarrow> jval" where
  "form_get_or_none rq k =
     (case form_get rq k of None \<Rightarrow> JNull | Some s \<Rightarrow> if s = [] then JNull else JStr s)"

text \<open>\<^verbatim>\<open>int(request.form.get(k))\<close>: \<^verbatim>\<open>int(None)\<close> is a \<^verbatim>\<open>TypeError\<close>.\<close>

fun py_int :: "lib \<Rightarrow> string option \<Rightarrow> pyerr + int" where
  "py_int L None = Inl TypeError"
| "py_int L (Some s) = (case int_of L s of None \<Rightarrow> Inl ValueError | Some i \<Rightarrow> Inr i)"

text \<open>\<^verbatim>\<open>int(request.form.get(k, 0))\<close>.\<close>

fun py_int_default0 :: "lib \<Rightarrow> string option \<Rightarrow> pyerr + int" where
  "py_int_default0 L None = Inr 0"
| "py_int_default0 L (Some s) = (case int_of L s of None \<Rightarrow> Inl ValueError | Some i \<Rightarrow> Inr i)"

text \<open>\<^verbatim>\<open>float(request.form.get(k, 0))\<close>.\<close>

fun py_float_default0 :: "lib \<Rightarrow> string option \<Rightarrow> pyerr + rat" where
  "py_float_default0 L None = Inr 0"
| "py_float_default0 L (Some s) =
     (case float_of L s of None \<Rightarrow> Inl ValueError | Some q \<Rightarrow> Inr q)"

subsection \<open>Lookups and id allocation\<close>

text \<open>\<^verbatim>\<open>next((x for x in data if p(x)), None)\<close> on a loaded value.\<close>

definition py_next ::
  "(jval \<Rightarrow> pyerr + bool) \<Rightarrow> jval \<Rightarrow> pyerr + (jval list \<times> jval \<times> jval list) option" where
  "py_next p data = ebind (py_iter data) (find_first p)"

text \<open>
  The loaded list after one of its elements was assigned to in place. An element is only
  ever found in a list: the elements of a dict or of a string are strings, on which the
  tests raise.
\<close>

fun with_items :: "jval \<Rightarrow> jval list \<Rightarrow> jval" where
  "with_items (JArr xs) ys = JArr ys"
| "with_items d ys = d"

fun is_num :: "jval \<Rightarrow> bool" where
  "is_num v = (num_of v \<noteq> None)"

definition num_gt :: "jval \<Rightarrow> jval \<Rightarrow> bool" where
  "num_gt a b = (case (num_of a, num_of b) of (Some p, Some q) \<Rightarrow> q < p | _ \<Rightarrow> False)"

text \<open>\<^verbatim>\<open>max\<close> keeps the first of the largest elements.\<close>

fun py_max :: "jval \<Rightarrow> jval list \<Rightarrow> jval" where
  "py_max m [] = m"
| "py_max m (y # ys) = py_max (if num_gt y m then y else m) ys"

fun add_one :: "lib \<Rightarrow> jval \<Rightarrow> pyerr + jval" where
  "add_one L (JInt i) = Inr (JInt (i + 1))"
| "add_one L (JBool b) = Inr (JInt ((if b then 1 else 0) + 1))"
| "add_one L (JFloat q) = Inr (JFloat (float_inc L q))"
| "add_one L _ = Inl TypeError"

text \<open>
  \<^verbatim>\<open>max(ids, default=0) + 1\<close>. When an id is not a number, either a comparison inside
  \<^verbatim>\<open>max\<close> or the addition raises \<^verbatim>\<open>TypeError\<close>.
\<close>

definition max_plus_one :: "lib \<Rightarrow> jval list \<Rightarrow> pyerr + jval" where
  "max_plus_one L ids =
     (if \<not> list_all is_num ids then Inl TypeError
      else case ids of [] \<Rightarrow> add_one L (JInt 0) | x # xs \<Rightarrow> add_one L (py_max x xs))"

text \<open>\<^verbatim>\<open>max([r.get(key, 0) for r in records], default=0) + 1\<close>.\<close>

definition next_id_get :: "lib \<Rightarrow> string \<Rightarrow> jval list \<Rightarrow> pyerr + jval" where
  "next_id_get L key records =
     ebind (map_py (\<lambda>r. py_get r key (JInt 0)) records) (max_plus_one L)"

text \<open>\<^verbatim>\<open>max([e[key] for e in records], default=0) + 1\<close>.\<close>

definition next_id_sub :: "lib \<Rightarrow> string \<Rightarrow> jval list \<Rightarrow> pyerr + jval" where
  "next_id_sub L key records =
     ebind (map_py (\<lambda>r. py_getitem r key) records) (max_plus_one L)"

subsection \<open>Dicts keyed by values\<close>

text \<open>
  \<^verbatim>\<open>{emp[key]: emp for emp in employees}\<close>: a list or a dict is not hashable; a key that is
  already there keeps its place and takes the new value.
\<close>

fun hashable :: "jval \<Rightarrow> bool" where
  "hashable (JArr xs) = False"
| "hashable (JObj kvs) = False"
| "hashable _ = True"

fun dict_set :: "(jval \<times> jval) list \<Rightarrow> jval \<Rightarrow> jval \<Rightarrow> (jval \<times> jval) list" where
  "dict_set [] k v = [(k, v)]"
| "dict_set ((k', v') # d) k v =
     (if py_eq k' k then (k', v) # d else (k', v') # dict_set d k v)"

fun dict_get :: "(jval \<times> jval) list \<Rightarrow> jval \<Rightarrow> jval option" where
  "dict_get [] k = None"
| "dict_get ((k', v') # d) k = (if py_eq k' k then Some v' else dict_get d k)"

fun lookup_by ::
  "string \<Rightarrow> jval list \<Rightarrow> (jval \<times> jval) list \<Rightarrow> pyerr + (jval \<times> jval) list" where
  "lookup_by key [] d = Inr d"
| "lookup_by key (e # es) d =
     ebind (py_getitem e key)
       (\<lambda>k. if hashable k then lookup_by key es (dict_set d k e) else Inl TypeError)"

definition build_lookup :: "string \<Rightarrow> jval \<Rightarrow> pyerr + (jval \<times> jval) list" where
  "build_lookup key data = ebind (py_iter data) (\<lambda>es. lookup_by key es [])"

section \<open>The data files\<close>

definition EMPLOYEES_FILE :: string where "EMPLOYEES_FILE = ''data/employees.json''"
definition USERS_FILE :: string where "USERS_FILE = ''data/users.json''"
definition DEPARTMENTS_FILE :: string where "DEPARTMENTS_FILE = ''data/departments.json''"
definition ATTENDANCE_FILE :: string where "ATTENDANCE_FILE = ''data/attendance.json''"
definition LEAVES_FILE :: string where "LEAVES_FILE = ''data/leaves.json''"
definition JOBS_FILE :: string where "JOBS_FILE = ''data/jobs.json''"
definition APPLICANTS_FILE :: string where "APPLICANTS_FILE = ''data/applicants.json''"

definition ALLOWED_EXTENSIONS :: "string set" where
  "ALLOWED_EXTENSIONS = {''pdf'', ''doc'', ''docx''}"

section \<open>Authentication and authorization decorators\<close>

definition login_required :: "handler \<Rightarrow> handler" where
  "login_required f =
     bnd (session_has ''user_id'') (\<lambda>logged_in.
       if \<not> logged_in then
         flash_return ''Please log in to access this page.'' ''warning'' (Redirect ''login'' [])
       else f)"

text \<open>\<^verbatim>\<open>v in roles\<close> and \<^verbatim>\<open>v in ['Admin', 'HR Staff']\<close>: only a string equals a role name.\<close>

fun one_of :: "jval \<Rightarrow> string list \<Rightarrow> bool" where
  "one_of (JStr s) roles = (s \<in> set roles)"
| "one_of _ roles = False"

definition role_required :: "string list \<Rightarrow> handler \<Rightarrow> handler" where
  "role_required roles f =
     bnd (session_has ''user_id'') (\<lambda>logged_in.
       if \<not> logged_in then
         flash_return ''Please log in to access this page.'' ''warning'' (Redirect ''login'' [])
       else
         bnd (session_get ''role'') (\<lambda>role.
           if \<not> one_of role roles then
             flash_return ''You do not have permission to access this page.'' ''danger''
               (Redirect ''index'' [])
           else f))"

section \<open>Login\<close>

text \<open>
  \<^verbatim>\<open>bcrypt.checkpw(password.encode('utf-8'), user['password_hash'].encode('utf-8'))\<close>:
  \<^verbatim>\<open>None\<close> and values that are not strings have no \<^verbatim>\<open>encode\<close>.
\<close>

definition check_password :: "lib \<Rightarrow> string option \<Rightarrow> jval \<Rightarrow> pyerr + bool" where
  "check_password L password user =
     (case password of
        None \<Rightarrow> Inl AttributeError
      | Some pw \<Rightarrow>
          ebind (py_getitem user ''password_hash'') (\<lambda>h.
            case h of
              JStr hash \<Rightarrow> (case checkpw L pw hash of None \<Rightarrow> Inl ValueError | Some ok \<Rightarrow> Inr ok)
            | _ \<Rightarrow> Inl AttributeError))"

definition login_invalid :: handler where
  "login_invalid =
     flash_return ''Invalid username or password.'' ''danger'' (Render ''login.html'' [])"

text \<open>The assignments to the session once the credentials were accepted.\<close>

definition login_accept :: "lib \<Rightarrow> request \<Rightarrow> jval \<Rightarrow> handler" where
  "login_accept L rq user =
     bnd (lift (py_getitem user ''user_id'')) (\<lambda>v.
     bnd (session_set ''user_id'' v) (\<lambda>_.
     bnd (lift (py_getitem user ''username'')) (\<lambda>v.
     bnd (session_set ''username'' v) (\<lambda>_.
     bnd (lift (py_getitem user ''role'')) (\<lambda>v.
     bnd (session_set ''role'' v) (\<lambda>_.
     bnd (lift (py_get user ''employee_id'' JNull)) (\<lambda>v.
     bnd (session_set ''employee_id'' v) (\<lambda>_.
       flash_return (''Welcome back, '' @ fmt L (field (form_get rq ''username'')) @ ''!'')
         ''success'' (Redirect ''index'' [])))))))))"

definition login :: "lib \<Rightarrow> request \<Rightarrow> handler" where
  "login L rq =
     (if req_method rq = POST then
        bnd (load USERS_FILE) (\<lambda>users.
        bnd (lift (py_next (key_is ''username'' (field (form_get rq ''username''))) users))
          (\<lambda>hit.
          case hit of
            None \<Rightarrow> login_invalid
          | Some (pre, user, post) \<Rightarrow>
              if \<not> truthy user then login_invalid
              else
                bnd (lift (py_getitem user ''active'')) (\<lambda>active.
                  if \<not> truthy active then login_invalid
                  else
                    bnd (lift (check_password L (form_get rq ''password'') user)) (\<lambda>ok.
                      if \<not> ok then login_invalid else login_accept L rq user))))
      else ret (Render ''login.html'' []))"

section \<open>Attendance\<close>

text \<open>
  \<^verbatim>\<open>record['employee_name'] = f"{emp['first_name']} {emp['last_name']}" if emp else "Unknown"\<close>
  with \<^verbatim>\<open>emp = employee_lookup.get(record['employee_id'])\<close>.
\<close>

definition add_employee_name :: "lib \<Rightarrow> (jval \<times> jval) list \<Rightarrow> jval \<Rightarrow> pyerr + jval" where
  "add_employee_name L employee_lookup record =
     ebind (py_getitem record ''employee_id'') (\<lambda>eid.
       if \<not> hashable eid then Inl TypeError
       else
         ebind
           (case dict_get employee_lookup eid of
              None \<Rightarrow> Inr ''Unknown''
            | Some emp \<Rightarrow>
                if truthy emp then
                  ebind (py_getitem emp ''first_name'') (\<lambda>first.
                  ebind (py_getitem emp ''last_name'') (\<lambda>last.
                    Inr (fmt L first @ '' '' @ fmt L last)))
                else Inr ''Unknown'')
           (\<lambda>name. py_setitem record ''employee_name'' (JStr name)))"

definition attendance_list_view :: "lib \<Rightarrow> handler" where
  "attendance_list_view L =
     bnd (load ATTENDANCE_FILE) (\<lambda>attendance_records.
     bnd (load EMPLOYEES_FILE) (\<lambda>employees.
     bnd (session_get ''role'') (\<lambda>current_role.
     bnd (session_get ''employee_id'') (\<lambda>current_employee_id.
       let continue = (\<lambda>records.
             bnd (lift (build_lookup ''employee_id'' employees)) (\<lambda>employee_lookup.
             bnd (lift (py_iter records)) (\<lambda>rows.
             bnd (lift (map_py (add_employee_name L employee_lookup) rows)) (\<lambda>named.
               ret (Render ''attendance/list.html''
                      [(''attendance_records'', with_items records named)])))))
       in
         if py_eq current_role (JStr ''Employee'') then
           bnd (lift (py_iter attendance_records)) (\<lambda>rows.
           bnd (lift (filter_py (key_is ''employee_id'' current_employee_id) rows)) (\<lambda>own.
             continue (JArr own)))
         else if \<not> one_of current_role [''Admin'', ''HR Staff''] then
           flash_return ''You do not have permission to access this page.'' ''danger''
             (Redirect ''index'' [])
         else continue attendance_records))))"

definition attendance_list :: "lib \<Rightarrow> handler" where
  "attendance_list L = login_required (attendance_list_view L)"

text \<open>
  The test of the loop that looks for today's record:
  \<^verbatim>\<open>record['employee_id'] == employee_id and record['date'] == today\<close>.
\<close>

definition is_today_record :: "int \<Rightarrow> string \<Rightarrow> jval \<Rightarrow> pyerr + bool" where
  "is_today_record employee_id day record =
     ebind (key_is ''employee_id'' (JInt employee_id) record) (\<lambda>same.
       if same then key_is ''date'' (JStr day) record else Inr False)"

text \<open>
  The branch \<^verbatim>\<open>action == 'check_in'\<close>. A record that the loop found has the keys that
  were tested, so it is truthy.
\<close>

definition check_in ::
  "lib \<Rightarrow> request \<Rightarrow> int \<Rightarrow> jval \<Rightarrow> (jval list \<times> jval \<times> jval list) option \<Rightarrow> unit run" where
  "check_in L rq employee_id attendance_records today_record =
     (case today_record of
        Some (pre, record, post) \<Rightarrow> flash ''You have already checked in today!'' ''warning''
      | None \<Rightarrow>
          bnd (lift (py_iter attendance_records)) (\<lambda>rows.
          bnd (lift (next_id_get L ''attendance_id'' rows)) (\<lambda>new_id.
          bnd (lift (py_append attendance_records
                 (JObj [(''attendance_id'', new_id),
                        (''employee_id'', JInt employee_id),
                        (''date'', JStr (today rq)),
                        (''check_in_time'', JStr (clock rq)),
                        (''check_out_time'', JNull),
                        (''notes'', JStr (form_get_default rq ''notes'' [])),
                        (''status'', JStr ''Present'')]))) (\<lambda>appended.
          bnd (save ATTENDANCE_FILE appended) (\<lambda>_.
            flash ''Check-in recorded successfully!'' ''success'')))))"

text \<open>The other branch: check-out.\<close>

definition check_out ::
  "request \<Rightarrow> jval \<Rightarrow> (jval list \<times> jval \<times> jval list) option \<Rightarrow> unit run" where
  "check_out rq attendance_records today_record =
     (case today_record of
        None \<Rightarrow> flash ''Please check in first!'' ''warning''
      | Some (pre, record, post) \<Rightarrow>
          bnd (lift (py_getitem record ''check_out_time'')) (\<lambda>out.
            if truthy out then flash ''You have already checked out today!'' ''warning''
            else
              bnd (lift (py_setitem record ''check_out_time'' (JStr (clock rq)))) (\<lambda>record1.
              bnd (lift (if form_get_default rq ''notes'' [] \<noteq> []
                         then py_setitem record1 ''notes''
                                (JStr (form_get_default rq ''notes'' []))
                         else Inr record1)) (\<lambda>record2.
              bnd (save ATTENDANCE_FILE
                     (with_items attendance_records (pre @ record2 # post))) (\<lambda>_.
                flash ''Check-out recorded successfully!'' ''success'')))))"

definition attendance_mark_view :: "lib \<Rightarrow> request \<Rightarrow> handler" where
  "attendance_mark_view L rq =
     bnd (session_get ''role'') (\<lambda>current_role.
     bnd (session_get ''employee_id'') (\<lambda>current_employee_id.
       if req_method rq = POST then
         bnd (lift (py_int L (form_get rq ''employee_id''))) (\<lambda>employee_id.
           if py_eq current_role (JStr ''Employee'') \<and>
              \<not> py_eq (JInt employee_id) current_employee_id then
             flash_return ''You can only mark your own attendance.'' ''danger''
               (Redirect ''attendance_mark'' [])
           else
             bnd (load ATTENDANCE_FILE) (\<lambda>attendance_records.
             bnd (lift (py_next (is_today_record employee_id (today rq)) attendance_records))
               (\<lambda>today_record.
             bnd
               (if form_get rq ''action'' = Some ''check_in''
                then check_in L rq employee_id attendance_records today_record
                else check_out rq attendance_records today_record)
               (\<lambda>_. ret (Redirect ''attendance_mark'' [])))))
       else
         bnd (load EMPLOYEES_FILE) (\<lambda>employees.
           if py_eq current_role (JStr ''Employee'') then
             bnd (lift (py_iter employees)) (\<lambda>rows.
             bnd (lift (filter_py (key_is ''employee_id'' current_employee_id) rows)) (\<lambda>own.
               ret (Render ''attendance/mark.html'' [(''employees'', JArr own)])))
           else ret (Render ''attendance/mark.html'' [(''employees'', employees)]))))"

definition attendance_mark :: "lib \<Rightarrow> request \<Rightarrow> handler" where
  "attendance_mark L rq = login_required (attendance_mark_view L rq)"

text \<open>Assigning several fields in turn: \<^verbatim>\<open>r[k1] = v1; r[k2] = v2; ...\<close>.\<close>

fun set_fields :: "jval \<Rightarrow> (string \<times> jval) list \<Rightarrow> pyerr + jval" where
  "set_fields r [] = Inr r"
| "set_fields r ((k, v) # kvs) = ebind (py_setitem r k v) (\<lambda>r'. set_fields r' kvs)"

definition attendance_edit_view :: "request \<Rightarrow> int \<Rightarrow> handler" where
  "attendance_edit_view rq attendance_id =
     bnd (load ATTENDANCE_FILE) (\<lambda>attendance_records.
     bnd (lift (py_next (key_is ''attendance_id'' (JInt attendance_id)) attendance_records))
       (\<lambda>hit.
       case hit of
         None \<Rightarrow>
           flash_return ''Attendance record not found.'' ''danger''
             (Redirect ''attendance_list'' [])
       | Some (pre, attendance, post) \<Rightarrow>
           if req_method rq = POST then
             bnd (lift (set_fields attendance
                    [(''date'', field (form_get rq ''date'')),
                     (''check_in_time'', field (form_get rq ''check_in_time'')),
                     (''check_out_time'', form_get_or_none rq ''check_out_time''),
                     (''notes'', JStr (form_get_default rq ''notes'' [])),
                     (''status'', JStr (form_get_default rq ''status'' ''Present''))]))
               (\<lambda>edited.
             bnd (save ATTENDANCE_FILE
                    (with_items attendance_records (pre @ edited # post))) (\<lambda>_.
               flash_return ''Attendance record updated successfully!'' ''success''
                 (Redirect ''attendance_list'' [])))
           else
             bnd (load EMPLOYEES_FILE) (\<lambda>employees.
               ret (Render ''attendance/edit.html''
                      [(''attendance'', attendance), (''employees'', employees)]))))"

definition attendance_edit :: "request \<Rightarrow> int \<Rightarrow> handler" where
  "attendance_edit rq attendance_id =
     role_required [''Admin'', ''HR Staff''] (attendance_edit_view rq attendance_id)"

text \<open>The test \<^verbatim>\<open>r[k] != v\<close> of the deleting filters.\<close>

definition key_is_not :: "string \<Rightarrow> jval \<Rightarrow> jval \<Rightarrow> pyerr + bool" where
  "key_is_not k v r = ebind (py_getitem r k) (\<lambda>u. Inr (\<not> py_eq u v))"

definition attendance_delete_view :: "int \<Rightarrow> handler" where
  "attendance_delete_view attendance_id =
     bnd (load ATTENDANCE_FILE) (\<lambda>attendance_records.
     bnd (lift (py_next (key_is ''attendance_id'' (JInt attendance_id)) attendance_records))
       (\<lambda>hit.
     bnd
       (case hit of
          Some (pre, attendance, post) \<Rightarrow>
            bnd (lift (py_iter attendance_records)) (\<lambda>rows.
            bnd (lift (filter_py (key_is_not ''attendance_id'' (JInt attendance_id)) rows))
              (\<lambda>kept.
            bnd (save ATTENDANCE_FILE (JArr kept)) (\<lambda>_.
              flash ''Attendance record deleted successfully!'' ''success'')))
        | None \<Rightarrow> flash ''Attendance record not found.'' ''danger'')
       (\<lambda>_. ret (Redirect ''attendance_list'' []))))"

definition attendance_delete :: "int \<Rightarrow> handler" where
  "attendance_delete attendance_id =
     role_required [''Admin'', ''HR Staff''] (attendance_delete_view attendance_id)"

section \<open>Leave requests\<close>

text \<open>
  The guard of \<^verbatim>\<open>leave_edit\<close>:
  \<^verbatim>\<open>current_user_role not in ['Admin', 'HR Staff'] and
  (leave['employee_id'] != current_employee_id or leave['status'] != 'Pending')\<close>.
\<close>

definition not_own_pending :: "jval \<Rightarrow> jval \<Rightarrow> jval \<Rightarrow> pyerr + bool" where
  "not_own_pending current_user_role current_employee_id leave =
     (if one_of current_user_role [''Admin'', ''HR Staff''] then Inr False
      else
        ebind (py_getitem leave ''employee_id'') (\<lambda>owner.
          if \<not> py_eq owner current_employee_id then Inr True
          else key_is_not ''status'' (JStr ''Pending'') leave))"

definition leave_edit_view :: "request \<Rightarrow> int \<Rightarrow> handler" where
  "leave_edit_view rq leave_id =
     bnd (load LEAVES_FILE) (\<lambda>leaves.
     bnd (lift (py_next (key_is ''leave_id'' (JInt leave_id)) leaves)) (\<lambda>hit.
       case hit of
         None \<Rightarrow> flash_return ''Leave request not found.'' ''danger'' (Redirect ''leaves_list'' [])
       | Some (pre, leave, post) \<Rightarrow>
           bnd (session_get ''role'') (\<lambda>current_user_role.
           bnd (session_get ''employee_id'') (\<lambda>current_employee_id.
           bnd (lift (not_own_pending current_user_role current_employee_id leave)) (\<lambda>refused.
             if refused then
               flash_return ''You can only edit your own pending leave requests.'' ''danger''
                 (Redirect ''leaves_list'' [])
             else if req_method rq = POST then
               bnd (lift (key_is ''status'' (JStr ''Pending'') leave)) (\<lambda>pending.
               bnd
                 (if pending \<or> one_of current_user_role [''Admin'', ''HR Staff''] then
                    bnd (lift (set_fields leave
                           ([(''leave_type'', field (form_get rq ''leave_type'')),
                             (''start_date'', field (form_get rq ''start_date'')),
                             (''end_date'', field (form_get rq ''end_date'')),
                             (''reason'', field (form_get rq ''reason''))] @
                            (if \<not> one_of current_user_role [''Admin'', ''HR Staff''] then
                               [(''approved_by'', JNull),
                                (''approved_date'', JNull),
                                (''comments'', JNull)]
                             else [])))) (\<lambda>edited.
                    bnd (save LEAVES_FILE (with_items leaves (pre @ edited # post))) (\<lambda>_.
                      flash ''Leave request updated successfully!'' ''success''))
                  else flash ''Cannot edit approved or rejected leave requests.'' ''danger'')
                 (\<lambda>_. ret (Redirect ''leaves_list'' [])))
             else
               bnd (load EMPLOYEES_FILE) (\<lambda>employees.
                 ret (Render ''leaves/edit.html''
                        [(''leave'', leave), (''employees'', employees)])))))))"

definition leave_edit :: "request \<Rightarrow> int \<Rightarrow> handler" where
  "leave_edit rq leave_id = login_required (leave_edit_view rq leave_id)"

section \<open>Employees\<close>

definition employee_add_view :: "lib \<Rightarrow> request \<Rightarrow> handler" where
  "employee_add_view L rq =
     (if req_method rq = POST then
        bnd (load EMPLOYEES_FILE) (\<lambda>employees.
        bnd (load DEPARTMENTS_FILE) (\<lambda>departments.
        bnd (lift (py_iter employees)) (\<lambda>rows.
        bnd (lift (next_id_sub L ''employee_id'' rows)) (\<lambda>new_id.
        bnd (lift (py_float_default0 L (form_get rq ''salary''))) (\<lambda>salary.
        bnd (lift (py_append employees
               (JObj [(''employee_id'', new_id),
                      (''first_name'', field (form_get rq ''first_name'')),
                      (''last_name'', field (form_get rq ''last_name'')),
                      (''cnic'', field (form_get rq ''cnic'')),
                      (''email'', field (form_get rq ''email'')),
                      (''contact'', field (form_get rq ''contact'')),
                      (''department'', field (form_get rq ''department'')),
                      (''designation'', field (form_get rq ''designation'')),
                      (''join_date'', field (form_get rq ''join_date'')),
                      (''status'', JStr (form_get_default rq ''status'' ''Active'')),
                      (''salary'', JFloat salary)]))) (\<lambda>appended.
        bnd (save EMPLOYEES_FILE appended) (\<lambda>_.
          flash_return
            (''Employee '' @ fmt L (field (form_get rq ''first_name'')) @ '' '' @
             fmt L (field (form_get rq ''last_name'')) @ '' added successfully!'')
            ''success'' (Redirect ''employees_list'' []))))))))
      else
        bnd (load DEPARTMENTS_FILE) (\<lambda>departments.
          ret (Render ''employees/form.html''
                 [(''employee'', JNull), (''departments'', departments)])))"

definition employee_add :: "lib \<Rightarrow> request \<Rightarrow> handler" where
  "employee_add L rq = role_required [''Admin'', ''HR Staff''] (employee_add_view L rq)"

definition employee_delete_view :: "lib \<Rightarrow> int \<Rightarrow> handler" where
  "employee_delete_view L employee_id =
     bnd (load EMPLOYEES_FILE) (\<lambda>employees.
     bnd (lift (py_next (key_is ''employee_id'' (JInt employee_id)) employees)) (\<lambda>hit.
     bnd
       (case hit of
          Some (pre, employee, post) \<Rightarrow>
            bnd (lift (py_iter employees)) (\<lambda>rows.
            bnd (lift (filter_py (key_is_not ''employee_id'' (JInt employee_id)) rows)) (\<lambda>kept.
            bnd (save EMPLOYEES_FILE (JArr kept)) (\<lambda>_.
            bnd (lift (py_getitem employee ''first_name'')) (\<lambda>first.
            bnd (lift (py_getitem employee ''last_name'')) (\<lambda>last.
              flash (''Employee '' @ fmt L first @ '' '' @ fmt L last @
                     '' deleted successfully!'') ''success'')))))
        | None \<Rightarrow> flash ''Employee not found.'' ''danger'')
       (\<lambda>_. ret (Redirect ''employees_list'' []))))"

definition employee_delete :: "lib \<Rightarrow> int \<Rightarrow> handler" where
  "employee_delete L employee_id =
     role_required [''Admin'', ''HR Staff''] (employee_delete_view L employee_id)"

section \<open>Recruitment\<close>

text \<open>
  \<^verbatim>\<open>'.' in filename and filename.rsplit('.', 1)[1].lower() in ALLOWED_EXTENSIONS\<close>.
  Only the letters A to Z matter to \<^verbatim>\<open>lower\<close> here: no other character lowers to a
  letter of an allowed extension.
\<close>

definition lower_char :: "char \<Rightarrow> char" where
  "lower_char c =
     (let n = (of_char c :: nat) in if 65 \<le> n \<and> n \<le> 90 then char_of (n + 32) else c)"

definition extension :: "string \<Rightarrow> string" where
  "extension filename = rev (takeWhile (\<lambda>c. c \<noteq> CHR ''.'') (rev filename))"

definition allowed_file :: "string \<Rightarrow> bool" where
  "allowed_file filename =
     (CHR ''.'' \<in> set filename \<and> map lower_char (extension filename) \<in> ALLOWED_EXTENSIONS)"

text \<open>
  \<^verbatim>\<open>save_uploaded_file\<close>: the saved name, or \<^verbatim>\<open>None\<close> for a file that is not allowed.
  An upload with an empty file name is falsy.
\<close>

definition save_uploaded_file :: "lib \<Rightarrow> request \<Rightarrow> string \<Rightarrow> string option run" where
  "save_uploaded_file L rq filename w =
     (if filename \<noteq> [] \<and> allowed_file filename then
        (let saved = stamp rq @ secure_filename L filename
         in (Inr (Some saved), w\<lparr>saved_files := saved_files w @ [saved]\<rparr>))
      else (Inr None, w))"

definition job_apply :: "lib \<Rightarrow> request \<Rightarrow> int \<Rightarrow> handler" where
  "job_apply L rq job_id =
     bnd (load JOBS_FILE) (\<lambda>jobs.
     bnd (lift (py_next (key_is ''job_id'' (JInt job_id)) jobs)) (\<lambda>hit.
       case hit of
         None \<Rightarrow> flash_return ''Job posting not found.'' ''danger'' (Redirect ''index'' [])
       | Some (pre, job, post) \<Rightarrow>
           if req_method rq = POST then
             bnd (load APPLICANTS_FILE) (\<lambda>applicants.
             bnd (case upload rq of
                    None \<Rightarrow> ret (Some JNull)
                  | Some filename \<Rightarrow>
                      if filename = [] then ret (Some JNull)
                      else
                        bnd (save_uploaded_file L rq filename) (\<lambda>saved.
                          case saved of
                            None \<Rightarrow> ret None
                          | Some name \<Rightarrow> if name = [] then ret None else ret (Some (JStr name))))
               (\<lambda>resume.
               case resume of
                 None \<Rightarrow>
                   flash_return
                     ''Invalid file type. Please upload PDF, DOC, or DOCX files only.''
                     ''danger'' (Render ''jobs/apply.html'' [(''job'', job)])
               | Some resume_filename \<Rightarrow>
                   bnd (lift (py_iter applicants)) (\<lambda>rows.
                   bnd (lift (next_id_get L ''applicant_id'' rows)) (\<lambda>new_id.
                   bnd (lift (py_int_default0 L (form_get rq ''experience_years'')))
                     (\<lambda>experience_years.
                   bnd (lift (py_float_default0 L (form_get rq ''expected_salary'')))
                     (\<lambda>expected_salary.
                   bnd (lift (py_append applicants
                          (JObj [(''applicant_id'', new_id),
                                 (''job_id'', JInt job_id),
                                 (''first_name'', field (form_get rq ''first_name'')),
                                 (''last_name'', field (form_get rq ''last_name'')),
                                 (''email'', field (form_get rq ''email'')),
                                 (''contact'', field (form_get rq ''contact'')),
                                 (''cnic'', field (form_get rq ''cnic'')),
                                 (''experience_years'', JInt experience_years),
                                 (''current_company'',
                                    JStr (form_get_default rq ''current_company'' [])),
                                 (''expected_salary'', JFloat expected_salary),
                                 (''cover_letter'',
                                    JStr (form_get_default rq ''cover_letter'' [])),
                                 (''resume_filename'', resume_filename),
                                 (''application_date'', JStr (today rq)),
                                 (''status'', JStr ''Applied''),
                                 (''reviewed_by'', JNull),
                                 (''review_date'', JNull),
                                 (''interview_date'', JNull),
                                 (''notes'', JNull)]))) (\<lambda>appended.
                   bnd (save APPLICANTS_FILE appended) (\<lambda>_.
                     flash_return
                       ''Your application has been submitted successfully! We will contact you soon.''
                       ''success'' (Redirect ''job_view'' [(''job_id'', JInt job_id)])))))))))
           else ret (Render ''jobs/apply.html'' [(''job'', job)])))"

definition applicant_onboard_view :: "lib \<Rightarrow> request \<Rightarrow> int \<Rightarrow> handler" where
  "applicant_onboard_view L rq applicant_id =
     bnd (load APPLICANTS_FILE) (\<lambda>applicants.
     bnd (lift (py_next (key_is ''applicant_id'' (JInt applicant_id)) applicants)) (\<lambda>hit.
       case hit of
         None \<Rightarrow> flash_return ''Applicant not found.'' ''danger'' (Redirect ''applicants_list'' [])
       | Some (pre, applicant, post) \<Rightarrow>
           if req_method rq = POST then
             bnd (load EMPLOYEES_FILE) (\<lambda>employees.
             bnd (lift (py_iter employees)) (\<lambda>rows.
             bnd (lift (next_id_sub L ''employee_id'' rows)) (\<lambda>new_id.
             bnd (lift (py_getitem applicant ''first_name'')) (\<lambda>first_name.
             bnd (lift (py_getitem applicant ''last_name'')) (\<lambda>last_name.
             bnd (lift (py_getitem applicant ''cnic'')) (\<lambda>cnic.
             bnd (lift (py_getitem applicant ''email'')) (\<lambda>email.
             bnd (lift (py_getitem applicant ''contact'')) (\<lambda>contact.
             bnd (lift (py_float_default0 L (form_get rq ''salary''))) (\<lambda>salary.
             bnd (lift (py_append employees
                    (JObj [(''employee_id'', new_id),
                           (''first_name'', first_name),
                           (''last_name'', last_name),
                           (''cnic'', cnic),
                           (''email'', email),
                           (''contact'', contact),
                           (''department'', field (form_get rq ''department'')),
                           (''designation'', field (form_get rq ''designation'')),
                           (''join_date'', field (form_get rq ''join_date'')),
                           (''status'', JStr ''Active''),
                           (''salary'', JFloat salary)]))) (\<lambda>appended.
             bnd (save EMPLOYEES_FILE appended) (\<lambda>_.
             bnd (lift (set_fields applicant
                    [(''status'', JStr ''Hired''),
                     (''notes'',
                        JStr (''Hired as '' @ fmt L (field (form_get rq ''designation'')) @
                              '' in '' @ fmt L (field (form_get rq ''department'')) @
                              '' department. Employee ID: '' @ fmt L new_id))])) (\<lambda>hired.
             bnd (save APPLICANTS_FILE (with_items applicants (pre @ hired # post))) (\<lambda>_.
               flash_return
                 (''Applicant '' @ fmt L first_name @ '' '' @ fmt L last_name @
                  '' has been successfully onboarded as Employee ID: '' @ fmt L new_id @ ''!'')
                 ''success'' (Redirect ''applicants_list'' []))))))))))))))
           else
             bnd (load JOBS_FILE) (\<lambda>jobs.
             bnd (lift (py_next
                    (\<lambda>j. ebind (py_getitem j ''job_id'') (\<lambda>u.
                           ebind (py_getitem applicant ''job_id'') (\<lambda>v. Inr (py_eq u v))))
                    jobs)) (\<lambda>job.
             bnd (load DEPARTMENTS_FILE) (\<lambda>departments.
               ret (Render ''applicants/onboard.html''
                      [(''applicant'', applicant),
                       (''job'', case job of None \<Rightarrow> JNull | Some (a, j, b) \<Rightarrow> j),
                       (''departments'', departments)]))))))"

definition applicant_onboard :: "lib \<Rightarrow> request \<Rightarrow> int \<Rightarrow> handler" where
  "applicant_onboard L rq applicant_id =
     role_required [''Admin'', ''HR Staff''] (applicant_onboard_view L rq applicant_id)"

section \<open>The conditions of a successful login, in the words of the specification\<close>

text \<open>
  The first user record with the submitted username, when there is one, its
  \<^verbatim>\<open>active\<close> field is truthy and the password check against its
  \<^verbatim>\<open>password_hash\<close> succeeds.
\<close>

definition accepted_user :: "lib \<Rightarrow> request \<Rightarrow> world \<Rightarrow> jval option" where
  "accepted_user L rq w =
     (case ebind (read_json_file (files w) USERS_FILE)
             (py_next (key_is ''username'' (field (form_get rq ''username'')))) of
        Inr (Some (pre, user, post)) \<Rightarrow>
          (case py_getitem user ''active'' of
             Inr active \<Rightarrow>
               if truthy active \<and> check_password L (form_get rq ''password'') user = Inr True
               then Some user else None
           | Inl e \<Rightarrow> None)
      | _ \<Rightarrow> None)"

section \<open>Well-formed rows, in the words of the data model\<close>

text \<open>A record has the field; a record has the field with a value that can key a dict.\<close>

definition has_field :: "string \<Rightarrow> jval \<Rightarrow> bool" where
  "has_field k r = (case py_getitem r k of Inr v \<Rightarrow> True | Inl e \<Rightarrow> False)"

definition has_scalar :: "string \<Rightarrow> jval \<Rightarrow> bool" where
  "has_scalar k r = (case py_getitem r k of Inr v \<Rightarrow> hashable v | Inl e \<Rightarrow> False)"

text \<open>A rendered row is the record with \<^verbatim>\<open>employee_name\<close> assigned, and nothing else changed.\<close>

definition named_row :: "jval \<Rightarrow> jval \<Rightarrow> bool" where
  "named_row r row =
     (case py_getitem row ''employee_name'' of
        Inr (JStr name) \<Rightarrow> py_setitem r ''employee_name'' (JStr name) = Inr row
      | _ \<Rightarrow> False)"

section \<open>Ids of records, in the words of the specification\<close>

text \<open>The id a record counts with under \<^verbatim>\<open>r.get(key, 0)\<close>.\<close>

definition id_or_0 :: "string \<Rightarrow> jval \<Rightarrow> int" where
  "id_or_0 key r = (case py_get r key (JInt 0) of Inr (JInt i) \<Rightarrow> i | _ \<Rightarrow> 0)"

text \<open>A dict whose id, when it has one, is an integer.\<close>

definition int_id_or_none :: "string \<Rightarrow> jval \<Rightarrow> bool" where
  "int_id_or_none key r =
     (case py_get r key (JInt 0) of Inr (JInt i) \<Rightarrow> True | _ \<Rightarrow> False)"

section \<open>One attendance record per employee and day, in the words of the specification\<close>

text \<open>Two records are for the same employee and the same date.\<close>

definition same_day :: "jval \<Rightarrow> jval \<Rightarrow> bool" where
  "same_day r s =
     (case (py_getitem r ''employee_id'', py_getitem r ''date'',
            py_getitem s ''employee_id'', py_getitem s ''date'') of
        (Inr e1, Inr d1, Inr e2, Inr d2) \<Rightarrow> py_eq e1 e2 \<and> py_eq d1 d2
      | _ \<Rightarrow> False)"

text \<open>Each (employee_id, date) pair occurs at most once.\<close>

fun unique_per_day :: "jval list \<Rightarrow> bool" where
  "unique_per_day [] = True"
| "unique_per_day (r # rs) = (\<not> list_ex (same_day r) rs \<and> unique_per_day rs)"

text \<open>What \<^const>\<open>same_day\<close> reads of a record.\<close>

definition day_key :: "jval \<Rightarrow> (pyerr + jval) \<times> (pyerr + jval)" where
  "day_key r = (py_getitem r ''employee_id'', py_getitem r ''date'')"

section \<open>Applying and onboarding, in the words of the specification\<close>

text \<open>A record whose id is there and is an integer.\<close>

definition has_int_id :: "string \<Rightarrow> jval \<Rightarrow> bool" where
  "has_int_id key r = (case py_getitem r key of Inr (JInt i) \<Rightarrow> True | _ \<Rightarrow> False)"

text \<open>
  The request carries no resume, or one whose name is allowed and is saved under a
  non-empty name.
\<close>

definition resume_accepted :: "lib \<Rightarrow> request \<Rightarrow> bool" where
  "resume_accepted L rq =
     (case upload rq of
        None \<Rightarrow> True
      | Some filename \<Rightarrow>
          filename = [] \<or> (allowed_file filename \<and> stamp rq @ secure_filename L filename \<noteq> []))"

text \<open>The name under which an accepted resume is stored in the applicant record.\<close>

definition resume_of :: "lib \<Rightarrow> request \<Rightarrow> jval" where
  "resume_of L rq =
     (case upload rq of
        None \<Rightarrow> JNull
      | Some filename \<Rightarrow>
          if filename = [] then JNull else JStr (stamp rq @ secure_filename L filename))"

text \<open>A field of one record has the value it has in another.\<close>

definition copied :: "jval \<Rightarrow> jval \<Rightarrow> string \<Rightarrow> bool" where
  "copied source target k =
     (case py_getitem source k of Inr v \<Rightarrow> py_getitem target k = Inr v | Inl e \<Rightarrow> False)"

text \<open>The applicant record that \<^verbatim>\<open>job_apply\<close> builds.\<close>

definition new_applicant :: "request \<Rightarrow> int \<Rightarrow> int \<Rightarrow> int \<Rightarrow> rat \<Rightarrow> jval \<Rightarrow> jval" where
  "new_applicant rq job_id new_id years salary resume =
     JObj [(''applicant_id'', JInt new_id),
           (''job_id'', JInt job_id),
           (''first_name'', field (form_get rq ''first_name'')),
           (''last_name'', field (form_get rq ''last_name'')),
           (''email'', field (form_get rq ''email'')),
           (''contact'', field (form_get rq ''contact'')),
           (''cnic'', field (form_get rq ''cnic'')),
           (''experience_years'', JInt years),
           (''current_company'', JStr (form_get_default rq ''current_company'' [])),
           (''expected_salary'', JFloat salary),
           (''cover_letter'', JStr (form_get_default rq ''cover_letter'' [])),
           (''resume_filename'', resume),
           (''application_date'', JStr (today rq)),
           (''status'', JStr ''Applied''),
           (''reviewed_by'', JNull),
           (''review_date'', JNull),
           (''interview_date'', JNull),
           (''notes'', JNull)]"

section \<open>Sample data for the closed instances\<close>

text \<open>
  A stand-in for the library functions, right on the few strings the instances below use:
  the numerals \<^verbatim>\<open>1\<close>, \<^verbatim>\<open>3\<close> and \<^verbatim>\<open>50000\<close>, one-digit integers and \<^verbatim>\<open>None\<close>
  in f-strings, and a password check that compares with a tagged copy of the password.
\<close>

definition sample_lib :: lib where
  "sample_lib =
     \<lparr>int_of = (\<lambda>s. if s = ''1'' then Some 1 else if s = ''3'' then Some 3 else None),
      float_of = (\<lambda>s. if s = ''50000'' then Some 50000 else None),
      checkpw = (\<lambda>password hash. Some (hash = ''bcrypt:'' @ password)),
      str_of = (\<lambda>v. case v of
                       JNull \<Rightarrow> ''None''
                     | JInt i \<Rightarrow> (if 0 \<le> i \<and> i < 10 then [''0123456789'' ! nat i] else ''?'')
                     | _ \<Rightarrow> ''?''),
      float_inc = (\<lambda>q. q + 1),
      secure_filename = (\<lambda>s. s)\<rparr>"

text \<open>A POST with the given form fields, and a world with the given collections and session.\<close>

definition sample_post :: "(string \<times> string) list \<Rightarrow> request" where
  "sample_post kvs =
     \<lparr>req_method = POST, form = kvs, upload = None,
      today = ''2025-10-03'', clock = ''09:00:00'', stamp = ''20251003_090000_''\<rparr>"

definition sample_world :: "(string \<times> jval) list \<Rightarrow> (string \<times> jval) list \<Rightarrow> world" where
  "sample_world collections s =
     \<lparr>files = map_of (map (\<lambda>(p, v). (p, Wellformed v)) collections),
      session = s, flashes = [], saved_files = []\<rparr>"

text \<open>Sessions, users and records.\<close>

definition admin_session :: "(string \<times> jval) list" where
  "admin_session = [(''user_id'', JInt 1), (''role'', JStr ''Admin''), (''employee_id'', JNull)]"

definition hr_session :: "(string \<times> jval) list" where
  "hr_session = [(''user_id'', JInt 4), (''role'', JStr ''HR Staff''), (''employee_id'', JNull)]"

definition sample_user :: jval where
  "sample_user =
     JObj [(''user_id'', JInt 4), (''username'', JStr ''sara''),
           (''password_hash'', JStr ''bcrypt:secret''), (''role'', JStr ''HR Staff''),
           (''employee_id'', JInt 9), (''active'', JBool True)]"

definition sample_leave :: jval where
  "sample_leave =
     JObj [(''leave_id'', JInt 1), (''employee_id'', JInt 9), (''leave_type'', JStr ''Annual''),
           (''start_date'', JStr ''2025-11-03''), (''end_date'', JStr ''2025-11-07''),
           (''reason'', JStr ''Travel''), (''status'', JStr ''Approved''),
           (''approved_by'', JInt 4)]"

definition sample_leave_form :: "(string \<times> string) list" where
  "sample_leave_form =
     [(''leave_type'', ''Sick''), (''start_date'', ''2025-11-04''),
      (''end_date'', ''2025-11-05''), (''reason'', ''Flu'')]"

definition att_record :: "int \<Rightarrow> int \<Rightarrow> string \<Rightarrow> jval" where
  "att_record attendance_id employee_id day =
     JObj [(''attendance_id'', JInt attendance_id), (''employee_id'', JInt employee_id),
           (''date'', JStr day), (''check_in_time'', JStr ''09:00:00''),
           (''check_out_time'', JNull), (''notes'', JStr []), (''status'', JStr ''Present'')]"

definition att_named :: "int \<Rightarrow> int \<Rightarrow> string \<Rightarrow> string \<Rightarrow> jval" where
  "att_named attendance_id employee_id day name =
     JObj [(''attendance_id'', JInt attendance_id), (''employee_id'', JInt employee_id),
           (''date'', JStr day), (''check_in_time'', JStr ''09:00:00''),
           (''check_out_time'', JNull), (''notes'', JStr []), (''status'', JStr ''Present''),
           (''employee_name'', JStr name)]"

definition emp_record :: "int \<Rightarrow> string \<Rightarrow> string \<Rightarrow> jval" where
  "emp_record employee_id first_name last_name =
     JObj [(''employee_id'', JInt employee_id), (''first_name'', JStr first_name),
           (''last_name'', JStr last_name)]"

definition sample_attendance :: "jval list" where
  "sample_attendance =
     [att_record 1 9 ''2025-10-01'', att_record 2 8 ''2025-10-01'',
      att_record 3 9 ''2025-10-02'']"

definition sample_employees :: "jval list" where
  "sample_employees = [emp_record 8 ''Ali'' ''Khan'', emp_record 9 ''Sara'' ''Malik'']"

text \<open>An application for job 5 and its onboarding.\<close>

definition sample_application :: request where
  "sample_application =
     sample_post [(''first_name'', ''Omar''), (''last_name'', ''Aziz''),
                  (''email'', ''omar@example.com''), (''contact'', ''0300''),
                  (''cnic'', ''35202''), (''experience_years'', ''3''),
                  (''expected_salary'', ''50000'')]"

definition sample_onboarding :: request where
  "sample_onboarding =
     sample_post [(''department'', ''Finance''), (''designation'', ''Accountant''),
                  (''join_date'', ''2025-11-01''), (''salary'', ''50000'')]"

definition sample_office :: world where
  "sample_office =
     sample_world
       [(JOBS_FILE, JArr [JObj [(''job_id'', JInt 5), (''title'', JStr ''Accountant'')]]),
        (APPLICANTS_FILE,
           JArr [JObj [(''applicant_id'', JInt 2), (''status'', JStr ''Rejected'')]]),
        (EMPLOYEES_FILE, JArr [emp_record 8 ''Ali'' ''Khan''])]
       []"

text \<open>
  Files of leave requests: one in Latin-1, whose byte 0xE9 is not UTF-8; one cut off in the
  middle; one compact; and the last as \<^verbatim>\<open>json.dump\<close> writes it with \<^verbatim>\<open>indent=2\<close>.
\<close>

definition latin1_leaves :: string where
  "latin1_leaves = ''[{\"leave_id\": 1, \"reason\": \"caf'' @ [CHR 0xE9] @ ''\"}]''"





definition sample_disk :: "string \<Rightarrow> disk" where
  "sample_disk bytes = \<lparr>folders = {''data''}, contents = [''data/leaves.json'' \<mapsto> bytes]\<rparr>"

section \<open>Facts about the Python operations\<close>

lemmas run_defs = bnd_def ret_def lift_def flash_def load_def save_def session_has_def
  session_get_def session_set_def flash_return_def

lemmas sample_defs = sample_lib_def sample_user_def sample_post_def sample_world_def

lemma find_first_hit:
  "find_first p xs = Inr (Some (pre, x, post)) \<Longrightarrow> p x = Inr True \<and> xs = pre @ x # post"
proof (induction xs arbitrary: pre)
  case Nil
  then show ?case by simp
next
  case (Cons a xs)
  then show ?case
    by (auto split: sum.splits bool.splits option.splits)
qed

lemma key_is_truthy: "key_is k v r = Inr True \<Longrightarrow> truthy r"
  by (cases r) (auto simp: key_is_def split: option.splits)

lemma py_next_hit:
  "py_next p data = Inr (Some (pre, x, post)) \<Longrightarrow> p x = Inr True"
  by (cases "py_iter data") (auto simp: py_next_def dest: find_first_hit)

lemma sget_update: "sget (AList.update k v s) k' = (if k' = k then v else sget s k')"
  by (simp add: sget_def update_conv')

section \<open>The JSON store: the view of the handlers is exact\<close>


lemma dir_exists_write [simp]:
  "dir_exists (d\<lparr>contents := c\<rparr>) p = dir_exists d p"
  by (simp add: dir_exists_def)


text \<open>
  What \<^verbatim>\<open>read_json_file\<close> does return: the empty list for a missing file and for a
  text that \<^verbatim>\<open>json.load\<close> rejects with \<^verbatim>\<open>JSONDecodeError\<close>, and the value for a text
  that it loads.
\<close>

lemma read_json_file_disk_returns:
  "\<not> dir_exists d p \<or> contents d p = None \<Longrightarrow> read_json_file_disk J d p = Inr (JArr [])"
  "dir_exists d p \<Longrightarrow> contents d p = Some bytes \<Longrightarrow> utf8_valid bytes \<Longrightarrow>
     loads J (universal_newlines bytes) = Rejected \<Longrightarrow> read_json_file_disk J d p = Inr (JArr [])"
  "dir_exists d p \<Longrightarrow> contents d p = Some bytes \<Longrightarrow> utf8_valid bytes \<Longrightarrow>
     loads J (universal_newlines bytes) = Loaded v \<Longrightarrow> read_json_file_disk J d p = Inr v"
  by (auto simp: read_json_file_disk_def)

section \<open>The JSON store: what loading returns\<close>

text \<open>
  C6 claims that \<^verbatim>\<open>read_json_file\<close> returns the empty list, never raising, when the
  content of the file is malformed. It catches \<^verbatim>\<open>JSONDecodeError\<close> only: on a file
  that is not UTF-8, here a list of leave requests saved in Latin-1, decoding the bytes
  raises \<^verbatim>\<open>UnicodeDecodeError\<close> before \<^verbatim>\<open>json.load\<close> parses anything, whatever the
  JSON library is, and the exception escapes.
\<close>

theorem read_json_file_disk_not_utf8:
  "read_json_file_disk J (sample_disk latin1_leaves) ''data/leaves.json''
     = Inl UnicodeDecodeError"
  by (simp add: read_json_file_disk_def sample_disk_def latin1_leaves_def dir_exists_def
      dirname_def byte_def between_def)

section \<open>The JSON store: the round trip\<close>


text \<open>
  When the directory is missing, the read gives the empty list and the write raises
  \<^verbatim>\<open>FileNotFoundError\<close>: nothing is stored.
\<close>

lemma save_load_missing_directory:
  "\<not> dir_exists d p \<Longrightarrow> save_load J d p = Inl FileNotFoundError \<and> after_save_load J d p = d"
  by (simp add: after_save_load_def save_load_def read_json_file_disk_def
      write_json_file_disk_def)



section \<open>The role guard\<close>

text \<open>
  C1. A route guarded by \<^verbatim>\<open>role_required(roles)\<close>: when the session has no
  \<^verbatim>\<open>user_id\<close>, the response is a redirect to the login page; when it has one but the
  session's role is not among the roles, the response is a redirect to the home page. In
  both cases the wrapped handler is not run (the outcome is the same whatever the handler
  is) and no file is changed: only a message is flashed.
\<close>

theorem role_required_guard:
  "(map_of (session w) ''user_id'' = None \<longrightarrow>
      role_required roles f w =
        (Inr (Redirect ''login'' []),
         w\<lparr>flashes := flashes w @ [(''Please log in to access this page.'', ''warning'')]\<rparr>) \<and>
      files (snd (role_required roles f w)) = files w \<and>
      role_required roles f w = role_required roles g w) \<and>
   (map_of (session w) ''user_id'' \<noteq> None \<and> \<not> one_of (sget (session w) ''role'') roles \<longrightarrow>
      role_required roles f w =
        (Inr (Redirect ''index'' []),
         w\<lparr>flashes := flashes w @
            [(''You do not have permission to access this page.'', ''danger'')]\<rparr>) \<and>
      files (snd (role_required roles f w)) = files w \<and>
      role_required roles f w = role_required roles g w)"
  by (simp add: role_required_def run_defs)

text \<open>
  An instance: deleting attendance record 1 without a session, and as an Employee, leaves
  the record in the file; as an Admin it removes it.
\<close>

theorem role_required_guard_witness:
  "fst (attendance_delete 1
      (sample_world [(ATTENDANCE_FILE, JArr [JObj [(''attendance_id'', JInt 1)]])] []))
     = Inr (Redirect ''login'' []) \<and>
   files (snd (attendance_delete 1
      (sample_world [(ATTENDANCE_FILE, JArr [JObj [(''attendance_id'', JInt 1)]])] [])))
      ATTENDANCE_FILE
     = Some (Wellformed (JArr [JObj [(''attendance_id'', JInt 1)]])) \<and>
   fst (attendance_delete 1
      (sample_world [(ATTENDANCE_FILE, JArr [JObj [(''attendance_id'', JInt 1)]])]
         [(''user_id'', JInt 7), (''role'', JStr ''Employee'')]))
     = Inr (Redirect ''index'' []) \<and>
   files (snd (attendance_delete 1
      (sample_world [(ATTENDANCE_FILE, JArr [JObj [(''attendance_id'', JInt 1)]])]
         [(''user_id'', JInt 7), (''role'', JStr ''Employee'')])))
      ATTENDANCE_FILE
     = Some (Wellformed (JArr [JObj [(''attendance_id'', JInt 1)]])) \<and>
   files (snd (attendance_delete 1
      (sample_world [(ATTENDANCE_FILE, JArr [JObj [(''attendance_id'', JInt 1)]])]
         [(''user_id'', JInt 7), (''role'', JStr ''Admin'')])))
      ATTENDANCE_FILE
     = Some (Wellformed (JArr []))"
  using role_required_guard
    [of "sample_world [(ATTENDANCE_FILE, JArr [JObj [(''attendance_id'', JInt 1)]])] []"
        "[''Admin'', ''HR Staff'']" "attendance_delete_view 1" "attendance_delete_view 1"]
    role_required_guard
    [of "sample_world [(ATTENDANCE_FILE, JArr [JObj [(''attendance_id'', JInt 1)]])]
           [(''user_id'', JInt 7), (''role'', JStr ''Employee'')]"
        "[''Admin'', ''HR Staff'']" "attendance_delete_view 1" "attendance_delete_view 1"]
  by (simp add: attendance_delete_def attendance_delete_view_def role_required_def run_defs
      sget_def py_next_def key_is_def key_is_not_def sample_defs)

text \<open>The same for a route guarded by \<^verbatim>\<open>login_required\<close> alone.\<close>

lemma login_required_guard:
  "map_of (session w) ''user_id'' = None \<Longrightarrow>
     login_required f w =
       (Inr (Redirect ''login'' []),
        w\<lparr>flashes := flashes w @ [(''Please log in to access this page.'', ''warning'')]\<rparr>)"
  by (simp add: login_required_def run_defs)

section \<open>Login\<close>

lemma login_accept_files: "files (snd (login_accept L rq user w)) = files w"
  by (simp add: login_accept_def run_defs split: sum.splits)

lemma login_invalid_same:
  "files (snd (login_invalid w)) = files w" "session (snd (login_invalid w)) = session w"
  by (simp_all add: login_invalid_def run_defs)

lemma login_get: "req_method rq \<noteq> POST \<Longrightarrow> login L rq w = (Inr (Render ''login.html'' []), w)"
  by (simp add: login_def run_defs)

text \<open>
  A user that the lookup found has the \<^verbatim>\<open>username\<close> key, so the test
  \<^verbatim>\<open>if user\<close> never fails on it.
\<close>

lemma login_accepted:
  assumes "req_method rq = POST" "accepted_user L rq w = Some user"
  shows "login L rq w = login_accept L rq user w"
proof -
  from assms(2) obtain users pre post active where
    r: "read_json_file (files w) USERS_FILE = Inr users" and
    n: "py_next (key_is ''username'' (field (form_get rq ''username''))) users
          = Inr (Some (pre, user, post))" and
    a: "py_getitem user ''active'' = Inr active" "truthy active" and
    c: "check_password L (form_get rq ''password'') user = Inr True"
    by (cases "read_json_file (files w) USERS_FILE")
       (auto simp: accepted_user_def split: sum.splits option.splits if_splits)
  from n have "truthy user"
    by (auto dest!: py_next_hit key_is_truthy)
  with assms(1) r n a c show ?thesis
    by (simp add: login_def run_defs del: read_json_file.simps)
qed

lemma login_rejected:
  assumes "req_method rq = POST" "accepted_user L rq w = None"
  shows "session (snd (login L rq w)) = session w"
  using assms
  by (cases "read_json_file (files w) USERS_FILE")
     (auto simp: login_def run_defs accepted_user_def login_invalid_same
           simp del: read_json_file.simps
           split: sum.splits option.splits if_splits)

lemma login_accept_result:
  assumes "py_getitem user ''user_id'' = Inr uid" "py_getitem user ''role'' = Inr role"
    "py_getitem user ''username'' = Inr name"
  shows "fst (login_accept L rq user w) = Inr (Redirect ''index'' []) \<and>
         session (snd (login_accept L rq user w)) =
           AList.update ''employee_id''
             (case py_get user ''employee_id'' JNull of Inr v \<Rightarrow> v | Inl e \<Rightarrow> JNull)
             (AList.update ''role'' role
               (AList.update ''username'' name
                 (AList.update ''user_id'' uid (session w))))"
  using assms
  by (cases user) (auto simp: login_accept_def run_defs split: option.splits)

lemma accepted_user_username:
  assumes "accepted_user L rq w = Some user"
  shows "\<exists>name. py_getitem user ''username'' = Inr name"
proof -
  from assms obtain users pre post where
    "py_next (key_is ''username'' (field (form_get rq ''username''))) users
       = Inr (Some (pre, user, post))"
    by (cases "read_json_file (files w) USERS_FILE")
       (auto simp: accepted_user_def split: sum.splits option.splits if_splits)
  then have "key_is ''username'' (field (form_get rq ''username'')) user = Inr True"
    by (rule py_next_hit)
  then show ?thesis
    by (cases "py_getitem user ''username''") (auto simp: key_is_def)
qed

text \<open>
  C10. A POST to \<^verbatim>\<open>login\<close> never writes a file. It leaves the session as it was
  unless a user record with the submitted username exists, its \<^verbatim>\<open>active\<close> field is
  truthy and the password check against its \<^verbatim>\<open>password_hash\<close> succeeds. When these
  hold (and the record has a \<^verbatim>\<open>user_id\<close> and a \<^verbatim>\<open>role\<close>), the session takes
  \<^verbatim>\<open>user_id\<close>, \<^verbatim>\<open>username\<close>, \<^verbatim>\<open>role\<close> and \<^verbatim>\<open>employee_id\<close> from the record and
  the response redirects to the home page.
\<close>

theorem login_identity:
  "files (snd (login L rq w)) = files w \<and>
   (req_method rq \<noteq> POST \<or> accepted_user L rq w = None \<longrightarrow>
      session (snd (login L rq w)) = session w) \<and>
   (req_method rq = POST \<and> accepted_user L rq w = Some user \<and>
    py_getitem user ''user_id'' = Inr uid \<and> py_getitem user ''role'' = Inr role \<longrightarrow>
      fst (login L rq w) = Inr (Redirect ''index'' []) \<and>
      sget (session (snd (login L rq w))) ''user_id'' = uid \<and>
      py_getitem user ''username'' = Inr (sget (session (snd (login L rq w))) ''username'') \<and>
      sget (session (snd (login L rq w))) ''role'' = role \<and>
      py_get user ''employee_id'' JNull
        = Inr (sget (session (snd (login L rq w))) ''employee_id''))"
proof (intro conjI impI)
  show "files (snd (login L rq w)) = files w"
    by (simp add: login_def run_defs login_accept_files login_invalid_same
        split: sum.splits option.splits prod.splits)
next
  assume "req_method rq \<noteq> POST \<or> accepted_user L rq w = None"
  then show "session (snd (login L rq w)) = session w"
  proof (cases "req_method rq = POST")
    case True
    assume "req_method rq \<noteq> POST \<or> accepted_user L rq w = None"
    with True show ?thesis by (simp add: login_rejected)
  next
    case False
    then show ?thesis by (simp add: login_get)
  qed
next
  assume a: "req_method rq = POST \<and> accepted_user L rq w = Some user \<and>
    py_getitem user ''user_id'' = Inr uid \<and> py_getitem user ''role'' = Inr role"
  then have eq: "login L rq w = login_accept L rq user w"
    by (simp add: login_accepted)
  from a obtain name where name: "py_getitem user ''username'' = Inr name"
    using accepted_user_username by blast
  note res = login_accept_result [of user uid role name L rq w]
  from a name res show "fst (login L rq w) = Inr (Redirect ''index'' [])"
    by (simp add: eq)
  from a name res show "sget (session (snd (login L rq w))) ''user_id'' = uid"
    by (simp add: eq sget_update)
  from a name res
  show "py_getitem user ''username'' = Inr (sget (session (snd (login L rq w))) ''username'')"
    by (simp add: eq sget_update)
  from a name res show "sget (session (snd (login L rq w))) ''role'' = role"
    by (simp add: eq sget_update)
  from a name res
  show "py_get user ''employee_id'' JNull
          = Inr (sget (session (snd (login L rq w))) ''employee_id'')"
    by (cases user) (auto simp: eq sget_update split: option.splits)
qed

text \<open>
  An instance: with the right password the session takes the role and the id of the
  record; with a wrong one the session stays empty.
\<close>

theorem login_identity_witness:
  "sget (session (snd (login sample_lib
       (sample_post [(''username'', ''sara''), (''password'', ''secret'')])
       (sample_world [(USERS_FILE, JArr [sample_user])] [])))) ''role'' = JStr ''HR Staff'' \<and>
   sget (session (snd (login sample_lib
       (sample_post [(''username'', ''sara''), (''password'', ''secret'')])
       (sample_world [(USERS_FILE, JArr [sample_user])] [])))) ''user_id'' = JInt 4 \<and>
   session (snd (login sample_lib
       (sample_post [(''username'', ''sara''), (''password'', ''guess'')])
       (sample_world [(USERS_FILE, JArr [sample_user])] []))) = []"
  using
    login_identity [of sample_lib
      "sample_post [(''username'', ''sara''), (''password'', ''secret'')]"
      "sample_world [(USERS_FILE, JArr [sample_user])] []" sample_user "JInt 4" "JStr ''HR Staff''"]
    login_identity [of sample_lib
      "sample_post [(''username'', ''sara''), (''password'', ''guess'')]"
      "sample_world [(USERS_FILE, JArr [sample_user])] []" sample_user "JInt 4" "JStr ''HR Staff''"]
  by (simp add: accepted_user_def sample_defs py_next_def key_is_def form_get_def
      check_password_def)

section \<open>Editing an approved leave request\<close>

text \<open>An element found by a test on a key was found in a list, and it is a dict.\<close>

lemma py_next_key_is_list:
  assumes "py_next (key_is k v) data = Inr (Some (pre, x, post))"
  shows "data = JArr (pre @ x # post) \<and> key_is k v x = Inr True"
proof -
  from assms obtain xs where it: "py_iter data = Inr xs"
    and ff: "find_first (key_is k v) xs = Inr (Some (pre, x, post))"
    by (cases "py_iter data") (auto simp: py_next_def)
  from ff have hit: "key_is k v x = Inr True" and xs: "xs = pre @ x # post"
    by (auto dest: find_first_hit)
  from hit obtain kvs where "x = JObj kvs"
    by (cases x) (auto simp: key_is_def)
  with it xs have "data = JArr (pre @ x # post)"
    by (cases data) (auto simp: map_eq_append_conv)
  with hit show ?thesis by simp
qed

text \<open>
  C3. A POST to \<^verbatim>\<open>leave_edit\<close> for a leave request whose status is
  \<^verbatim>\<open>Approved\<close>: a caller with role \<^verbatim>\<open>Employee\<close>, whoever the request belongs to
  (the owner included), is redirected to the list and no file changes; for a caller with
  role \<^verbatim>\<open>HR Staff\<close> the four submitted fields are assigned to the request, in place,
  and the list is written back.
\<close>

theorem leave_edit_approved:
  assumes "req_method rq = POST"
    and "map_of (session w) ''user_id'' \<noteq> None"
    and "read_json_file (files w) LEAVES_FILE = Inr leaves"
    and "py_next (key_is ''leave_id'' (JInt leave_id)) leaves = Inr (Some (pre, leave, post))"
    and "py_getitem leave ''status'' = Inr (JStr ''Approved'')"
  shows "(sget (session w) ''role'' = JStr ''Employee'' \<and>
          py_getitem leave ''employee_id'' = Inr owner \<longrightarrow>
            fst (leave_edit rq leave_id w) = Inr (Redirect ''leaves_list'' []) \<and>
            files (snd (leave_edit rq leave_id w)) = files w) \<and>
         (sget (session w) ''role'' = JStr ''HR Staff'' \<longrightarrow>
            fst (leave_edit rq leave_id w) = Inr (Redirect ''leaves_list'' []) \<and>
            (\<exists>edited.
               set_fields leave
                 [(''leave_type'', field (form_get rq ''leave_type'')),
                  (''start_date'', field (form_get rq ''start_date'')),
                  (''end_date'', field (form_get rq ''end_date'')),
                  (''reason'', field (form_get rq ''reason''))] = Inr edited \<and>
               files (snd (leave_edit rq leave_id w)) =
                 (files w)(LEAVES_FILE \<mapsto> Wellformed (JArr (pre @ edited # post)))))"
proof -
  from assms(4) have l: "leaves = JArr (pre @ leave # post)"
    by (auto dest: py_next_key_is_list)
  from assms(5) obtain kvs where k: "leave = JObj kvs"
    by (cases leave) auto
  show ?thesis
    using assms unfolding l k
    by (auto simp: leave_edit_def login_required_def leave_edit_view_def not_own_pending_def
        run_defs key_is_def key_is_not_def simp del: read_json_file.simps
        split: option.splits)
qed

text \<open>
  An instance: the owner, employee 9, and an HR user submit the same change to an approved
  request.
\<close>

theorem leave_edit_approved_witness:
  "files (snd (leave_edit (sample_post sample_leave_form) 1
      (sample_world [(LEAVES_FILE, JArr [sample_leave])]
         [(''user_id'', JInt 5), (''role'', JStr ''Employee''), (''employee_id'', JInt 9)])))
      LEAVES_FILE = Some (Wellformed (JArr [sample_leave])) \<and>
   files (snd (leave_edit (sample_post sample_leave_form) 1
      (sample_world [(LEAVES_FILE, JArr [sample_leave])]
         [(''user_id'', JInt 4), (''role'', JStr ''HR Staff''), (''employee_id'', JNull)])))
      LEAVES_FILE =
     Some (Wellformed (JArr [
       JObj [(''leave_id'', JInt 1), (''employee_id'', JInt 9), (''leave_type'', JStr ''Sick''),
             (''start_date'', JStr ''2025-11-04''), (''end_date'', JStr ''2025-11-05''),
             (''reason'', JStr ''Flu''), (''status'', JStr ''Approved''),
             (''approved_by'', JInt 4)]]))"
proof -
  let ?rq = "sample_post sample_leave_form"
  let ?emp = "sample_world [(LEAVES_FILE, JArr [sample_leave])]
         [(''user_id'', JInt 5), (''role'', JStr ''Employee''), (''employee_id'', JInt 9)]"
  let ?hr = "sample_world [(LEAVES_FILE, JArr [sample_leave])]
         [(''user_id'', JInt 4), (''role'', JStr ''HR Staff''), (''employee_id'', JNull)]"
  have m: "req_method ?rq = POST"
    by (simp add: sample_defs)
  have u: "map_of (session ?emp) ''user_id'' \<noteq> None" "map_of (session ?hr) ''user_id'' \<noteq> None"
    by (simp_all add: sample_defs)
  have r: "read_json_file (files ?emp) LEAVES_FILE = Inr (JArr [sample_leave])"
    "read_json_file (files ?hr) LEAVES_FILE = Inr (JArr [sample_leave])"
    by (simp_all add: sample_defs)
  have n: "py_next (key_is ''leave_id'' (JInt 1)) (JArr [sample_leave])
             = Inr (Some ([], sample_leave, []))"
    by (simp add: py_next_def key_is_def sample_leave_def)
  have s: "py_getitem sample_leave ''status'' = Inr (JStr ''Approved'')"
    by (simp add: sample_leave_def)
  from leave_edit_approved [OF m u(1) r(1) n s, of "JInt 9"]
       leave_edit_approved [OF m u(2) r(2) n s, of "JInt 9"]
  show ?thesis
    by (simp add: sample_defs sget_def sample_leave_def sample_leave_form_def form_get_def)
qed

section \<open>Deleting a record\<close>

lemma find_first_split:
  "\<forall>r\<in>set pre. p r = Inr False \<Longrightarrow> p x = Inr True \<Longrightarrow>
     find_first p (pre @ x # post) = Inr (Some (pre, x, post))"
  by (induction pre) auto

lemma find_first_none:
  "\<forall>r\<in>set xs. p r \<noteq> Inr True \<Longrightarrow>
     find_first p xs = Inr None \<or> (\<exists>e. find_first p xs = Inl e)"
proof (induction xs)
  case Nil
  then show ?case by simp
next
  case (Cons a xs)
  then show ?case
    by (cases "p a") (auto split: bool.splits)
qed

lemma filter_py_total:
  "\<forall>r\<in>set xs. p r = Inr (q r) \<Longrightarrow> filter_py p xs = Inr (filter q xs)"
  by (induction xs) auto

lemma key_is_not_conv:
  "key_is k v r = Inr False \<Longrightarrow> key_is_not k v r = Inr True"
  "key_is k v r = Inr True \<Longrightarrow> key_is_not k v r = Inr False"
  by (cases "py_getitem r k"; simp add: key_is_def key_is_not_def)+

lemma delete_filter:
  assumes "key_is k v x = Inr True" "\<forall>r\<in>set (pre @ post). key_is k v r = Inr False"
  shows "filter_py (key_is_not k v) (pre @ x # post) = Inr (pre @ post)"
proof -
  have "\<forall>r\<in>set (pre @ x # post). key_is_not k v r = Inr (key_is k v r = Inr False)"
    using assms by (auto simp: key_is_not_conv)
  then have "filter_py (key_is_not k v) (pre @ x # post)
      = Inr (filter (\<lambda>r. key_is k v r = Inr False) (pre @ x # post))"
    by (rule filter_py_total)
  moreover have "filter (\<lambda>r. key_is k v r = Inr False) (pre @ x # post) = pre @ post"
    using assms by (auto simp: filter_id_conv)
  ultimately show ?thesis by simp
qed

lemma authorized:
  assumes "map_of (session w) ''user_id'' \<noteq> None" "one_of (sget (session w) ''role'') roles"
  shows "role_required roles f w = f w"
  using assms by (simp add: role_required_def run_defs)

lemma attendance_delete_view_present:
  assumes "files w ATTENDANCE_FILE = Some (Wellformed (JArr (pre @ x # post)))"
    "key_is ''attendance_id'' (JInt i) x = Inr True"
    "\<forall>r\<in>set (pre @ post). key_is ''attendance_id'' (JInt i) r = Inr False"
  shows "attendance_delete_view i w =
    (Inr (Redirect ''attendance_list'' []),
     w\<lparr>files := (files w)(ATTENDANCE_FILE \<mapsto> Wellformed (JArr (pre @ post))),
       flashes := flashes w @ [(''Attendance record deleted successfully!'', ''success'')]\<rparr>)"
proof -
  from assms have "find_first (key_is ''attendance_id'' (JInt i)) (pre @ x # post)
      = Inr (Some (pre, x, post))"
    by (intro find_first_split) auto
  moreover note delete_filter [OF assms(2,3)]
  ultimately show ?thesis
    using assms(1) by (simp add: attendance_delete_view_def run_defs py_next_def)
qed

lemma attendance_delete_view_absent:
  assumes "files w ATTENDANCE_FILE = Some (Wellformed (JArr recs))"
    "\<forall>r\<in>set recs. key_is ''attendance_id'' (JInt i) r \<noteq> Inr True"
  shows "files (snd (attendance_delete_view i w)) = files w"
  using find_first_none [OF assms(2)] assms(1)
  by (auto simp: attendance_delete_view_def run_defs py_next_def)

lemma employee_delete_view_present:
  assumes "files w EMPLOYEES_FILE = Some (Wellformed (JArr (pre @ x # post)))"
    "key_is ''employee_id'' (JInt i) x = Inr True"
    "\<forall>r\<in>set (pre @ post). key_is ''employee_id'' (JInt i) r = Inr False"
  shows "files (snd (employee_delete_view L i w)) =
     (files w)(EMPLOYEES_FILE \<mapsto> Wellformed (JArr (pre @ post)))"
proof -
  from assms have "find_first (key_is ''employee_id'' (JInt i)) (pre @ x # post)
      = Inr (Some (pre, x, post))"
    by (intro find_first_split) auto
  moreover note delete_filter [OF assms(2,3)]
  ultimately show ?thesis
    using assms(1)
    by (simp add: employee_delete_view_def run_defs py_next_def split: sum.splits)
qed

lemma employee_delete_view_absent:
  assumes "files w EMPLOYEES_FILE = Some (Wellformed (JArr recs))"
    "\<forall>r\<in>set recs. key_is ''employee_id'' (JInt i) r \<noteq> Inr True"
  shows "files (snd (employee_delete_view L i w)) = files w"
  using find_first_none [OF assms(2)] assms(1)
  by (auto simp: employee_delete_view_def run_defs py_next_def)

text \<open>
  C8. For a caller allowed to delete (Admin or HR Staff): when exactly one record of the
  collection has the given id (every other record has the id key, with another value), the
  delete writes the collection without that record, every other record as it was and in
  the same order; when no record has that id, no file changes. This holds for
  \<^verbatim>\<open>attendance_delete\<close> and for \<^verbatim>\<open>employee_delete\<close>.
\<close>

theorem delete_removes_exactly:
  assumes "map_of (session w) ''user_id'' \<noteq> None"
    and "one_of (sget (session w) ''role'') [''Admin'', ''HR Staff'']"
  shows
   "(files w ATTENDANCE_FILE = Some (Wellformed (JArr (pre @ x # post))) \<and>
     key_is ''attendance_id'' (JInt i) x = Inr True \<and>
     (\<forall>r\<in>set (pre @ post). key_is ''attendance_id'' (JInt i) r = Inr False) \<longrightarrow>
       fst (attendance_delete i w) = Inr (Redirect ''attendance_list'' []) \<and>
       files (snd (attendance_delete i w)) =
         (files w)(ATTENDANCE_FILE \<mapsto> Wellformed (JArr (pre @ post)))) \<and>
    (files w ATTENDANCE_FILE = Some (Wellformed (JArr recs)) \<and>
     (\<forall>r\<in>set recs. key_is ''attendance_id'' (JInt i) r \<noteq> Inr True) \<longrightarrow>
       files (snd (attendance_delete i w)) = files w) \<and>
    (files w EMPLOYEES_FILE = Some (Wellformed (JArr (pre @ x # post))) \<and>
     key_is ''employee_id'' (JInt i) x = Inr True \<and>
     (\<forall>r\<in>set (pre @ post). key_is ''employee_id'' (JInt i) r = Inr False) \<longrightarrow>
       files (snd (employee_delete L i w)) =
         (files w)(EMPLOYEES_FILE \<mapsto> Wellformed (JArr (pre @ post)))) \<and>
    (files w EMPLOYEES_FILE = Some (Wellformed (JArr recs)) \<and>
     (\<forall>r\<in>set recs. key_is ''employee_id'' (JInt i) r \<noteq> Inr True) \<longrightarrow>
       files (snd (employee_delete L i w)) = files w)"
  using authorized [OF assms]
  by (simp add: attendance_delete_def employee_delete_def attendance_delete_view_present
      attendance_delete_view_absent employee_delete_view_present employee_delete_view_absent)

text \<open>
  An instance: deleting attendance record 2 of three, and employee 8 of two; deleting an id
  that no record has.
\<close>

theorem delete_removes_exactly_witness:
  "files (snd (attendance_delete 2
      (sample_world [(ATTENDANCE_FILE,
          JArr [att_record 1 9 ''2025-10-01'', att_record 2 9 ''2025-10-02'', att_record 3 8 ''2025-10-02''])]
        admin_session))) ATTENDANCE_FILE
     = Some (Wellformed (JArr [att_record 1 9 ''2025-10-01'', att_record 3 8 ''2025-10-02''])) \<and>
   files (snd (attendance_delete 5
      (sample_world [(ATTENDANCE_FILE,
          JArr [att_record 1 9 ''2025-10-01'', att_record 2 9 ''2025-10-02'', att_record 3 8 ''2025-10-02''])]
        admin_session))) ATTENDANCE_FILE
     = Some (Wellformed
         (JArr [att_record 1 9 ''2025-10-01'', att_record 2 9 ''2025-10-02'', att_record 3 8 ''2025-10-02''])) \<and>
   files (snd (employee_delete sample_lib 8
      (sample_world [(EMPLOYEES_FILE, JArr [emp_record 8 ''Ali'' ''Khan'', emp_record 9 ''Sara'' ''Malik''])]
        admin_session))) EMPLOYEES_FILE
     = Some (Wellformed (JArr [emp_record 9 ''Sara'' ''Malik''])) \<and>
   files (snd (employee_delete sample_lib 3
      (sample_world [(EMPLOYEES_FILE, JArr [emp_record 8 ''Ali'' ''Khan'', emp_record 9 ''Sara'' ''Malik''])]
        admin_session))) EMPLOYEES_FILE
     = Some (Wellformed (JArr [emp_record 8 ''Ali'' ''Khan'', emp_record 9 ''Sara'' ''Malik'']))"
proof -
  let ?recs = "[att_record 1 9 ''2025-10-01'', att_record 2 9 ''2025-10-02'', att_record 3 8 ''2025-10-02'']"
  let ?emps = "[emp_record 8 ''Ali'' ''Khan'', emp_record 9 ''Sara'' ''Malik'']"
  let ?wa = "sample_world [(ATTENDANCE_FILE, JArr ?recs)] admin_session"
  let ?we = "sample_world [(EMPLOYEES_FILE, JArr ?emps)] admin_session"
  have a: "map_of (session ?wa) ''user_id'' \<noteq> None"
    "one_of (sget (session ?wa) ''role'') [''Admin'', ''HR Staff'']"
    "map_of (session ?we) ''user_id'' \<noteq> None"
    "one_of (sget (session ?we) ''role'') [''Admin'', ''HR Staff'']"
    by (simp_all add: sample_defs admin_session_def sget_def)
  from delete_removes_exactly [OF a(1,2), of "[att_record 1 9 ''2025-10-01'']" "att_record 2 9 ''2025-10-02''"
         "[att_record 3 8 ''2025-10-02'']" 2 ?recs sample_lib]
       delete_removes_exactly [OF a(1,2), of "[att_record 1 9 ''2025-10-01'']" "att_record 2 9 ''2025-10-02''"
         "[att_record 3 8 ''2025-10-02'']" 5 ?recs sample_lib]
       delete_removes_exactly [OF a(3,4), of "[]" "emp_record 8 ''Ali'' ''Khan''"
         "[emp_record 9 ''Sara'' ''Malik'']" 8 ?emps sample_lib]
       delete_removes_exactly [OF a(3,4), of "[]" "emp_record 8 ''Ali'' ''Khan''"
         "[emp_record 9 ''Sara'' ''Malik'']" 3 ?emps sample_lib]
  show ?thesis
    by (simp add: sample_defs key_is_def att_record_def emp_record_def ATTENDANCE_FILE_def EMPLOYEES_FILE_def)
qed

section \<open>Listing attendance\<close>

lemma named_rowI: "py_setitem r ''employee_name'' (JStr name) = Inr row \<Longrightarrow> named_row r row"
  by (cases r) (auto simp: named_row_def update_conv')

lemma has_fieldD: "has_field k r \<Longrightarrow> \<exists>v. py_getitem r k = Inr v"
  by (cases "py_getitem r k") (simp_all add: has_field_def)

lemma has_scalarD: "has_scalar k r \<Longrightarrow> \<exists>v. py_getitem r k = Inr v \<and> hashable v"
  by (cases "py_getitem r k") (simp_all add: has_scalar_def)

lemma dict_set_values: "snd ` set (dict_set d k v) \<subseteq> insert v (snd ` set d)"
proof (induction d)
  case Nil
  then show ?case by simp
next
  case (Cons a d)
  then show ?case
    by (cases a) (auto split: if_splits)
qed

lemma dict_get_value: "dict_get d k = Some e \<Longrightarrow> e \<in> snd ` set d"
  by (induction d) (auto split: if_splits)

lemma lookup_by_ok:
  "\<forall>e\<in>set es. has_scalar key e \<Longrightarrow>
     \<exists>d'. lookup_by key es d = Inr d' \<and> snd ` set d' \<subseteq> snd ` set d \<union> set es"
proof (induction es arbitrary: d)
  case Nil
  then show ?case by simp
next
  case (Cons e es)
  from Cons.prems obtain v where v: "py_getitem e key = Inr v" "hashable v"
    by (auto dest!: has_scalarD)
  from Cons.prems have "\<forall>e\<in>set es. has_scalar key e" by simp
  from Cons.IH [OF this, of "dict_set d v e"] obtain d' where
    d': "lookup_by key es (dict_set d v e) = Inr d'"
        "snd ` set d' \<subseteq> snd ` set (dict_set d v e) \<union> set es"
    by blast
  from d'(2) dict_set_values [of d v e] have "snd ` set d' \<subseteq> snd ` set d \<union> set (e # es)"
    by auto
  with v d'(1) show ?case by simp
qed

lemma add_employee_name_ok:
  assumes "has_scalar ''employee_id'' r"
    and "\<forall>e\<in>snd ` set lookup. has_field ''first_name'' e \<and> has_field ''last_name'' e"
  shows "\<exists>row. add_employee_name L lookup r = Inr row \<and> named_row r row"
proof -
  from assms(1) obtain v where v: "py_getitem r ''employee_id'' = Inr v" "hashable v"
    by (auto dest!: has_scalarD)
  then obtain kvs where "r = JObj kvs"
    by (cases r) auto
  note r = this v
  show ?thesis
  proof (cases "dict_get lookup v")
    case None
    with r show ?thesis
      by (auto simp: add_employee_name_def intro!: named_rowI)
  next
    case (Some e)
    then have "e \<in> snd ` set lookup" by (rule dict_get_value)
    with assms(2) have "has_field ''first_name'' e" "has_field ''last_name'' e"
      by auto
    then obtain f l where
      "py_getitem e ''first_name'' = Inr f" "py_getitem e ''last_name'' = Inr l"
      by (auto dest!: has_fieldD)
    with r Some show ?thesis
      by (auto simp: add_employee_name_def intro!: named_rowI)
  qed
qed

lemma map_py_ok:
  "\<forall>r\<in>set xs. \<exists>y. f r = Inr y \<and> P r y \<Longrightarrow> \<exists>ys. map_py f xs = Inr ys \<and> list_all2 P xs ys"
proof (induction xs)
  case Nil
  then show ?case by simp
next
  case (Cons a xs)
  then obtain y ys where "f a = Inr y" "P a y" "map_py f xs = Inr ys" "list_all2 P xs ys"
    by auto
  then show ?case by simp
qed

lemma own_filter:
  assumes "\<forall>r\<in>set recs. has_scalar ''employee_id'' r"
  shows "filter_py (key_is ''employee_id'' v) recs
           = Inr (filter (\<lambda>r. key_is ''employee_id'' v r = Inr True) recs)"
proof (rule filter_py_total, rule ballI)
  fix r assume "r \<in> set recs"
  with assms have "has_scalar ''employee_id'' r" by simp
  then show "key_is ''employee_id'' v r = Inr (key_is ''employee_id'' v r = Inr True)"
    by (auto simp: key_is_def dest!: has_scalarD)
qed

text \<open>
  C2. For a logged-in caller, an attendance list whose records have an
  \<^verbatim>\<open>employee_id\<close> and an employee list whose records have \<^verbatim>\<open>employee_id\<close>,
  \<^verbatim>\<open>first_name\<close> and \<^verbatim>\<open>last_name\<close>: with role \<^verbatim>\<open>Employee\<close> the rendered rows
  are exactly the records whose \<^verbatim>\<open>employee_id\<close> equals the session's, in their
  order, and with role \<^verbatim>\<open>Admin\<close> they are all the records; each row is its record
  with the display field \<^verbatim>\<open>employee_name\<close> assigned. Nothing is written.
\<close>

theorem attendance_list_rows:
  assumes "map_of (session w) ''user_id'' \<noteq> None"
    and "files w ATTENDANCE_FILE = Some (Wellformed (JArr recs))"
    and "files w EMPLOYEES_FILE = Some (Wellformed (JArr emps))"
    and "\<forall>r\<in>set recs. has_scalar ''employee_id'' r"
    and "\<forall>e\<in>set emps. has_scalar ''employee_id'' e \<and> has_field ''first_name'' e \<and>
           has_field ''last_name'' e"
  shows
    "(sget (session w) ''role'' = JStr ''Employee'' \<longrightarrow>
        (\<exists>rows. attendance_list L w =
             (Inr (Render ''attendance/list.html'' [(''attendance_records'', JArr rows)]), w) \<and>
           list_all2 named_row
             (filter (\<lambda>r. key_is ''employee_id'' (sget (session w) ''employee_id'') r = Inr True)
                recs) rows)) \<and>
     (sget (session w) ''role'' = JStr ''Admin'' \<longrightarrow>
        (\<exists>rows. attendance_list L w =
             (Inr (Render ''attendance/list.html'' [(''attendance_records'', JArr rows)]), w) \<and>
           list_all2 named_row recs rows))"
proof -
  from assms(5) have "\<forall>e\<in>set emps. has_scalar ''employee_id'' e" by simp
  from lookup_by_ok [OF this, of "[]"] obtain lookup where
    lk: "lookup_by ''employee_id'' emps [] = Inr lookup" "snd ` set lookup \<subseteq> set emps"
    by auto
  with assms(5) have names:
    "\<forall>e\<in>snd ` set lookup. has_field ''first_name'' e \<and> has_field ''last_name'' e"
    by blast
  have all: "\<exists>rows. map_py (add_employee_name L lookup) xs = Inr rows \<and> list_all2 named_row xs rows"
    if "set xs \<subseteq> set recs" for xs
  proof (rule map_py_ok, rule ballI)
    fix r assume "r \<in> set xs"
    with that assms(4) have "has_scalar ''employee_id'' r" by auto
    then show "\<exists>y. add_employee_name L lookup r = Inr y \<and> named_row r y"
      using names by (rule add_employee_name_ok)
  qed
  let ?own = "filter (\<lambda>r. key_is ''employee_id'' (sget (session w) ''employee_id'') r = Inr True) recs"
  from all [of ?own] obtain rows1 where
    r1: "map_py (add_employee_name L lookup) ?own = Inr rows1" "list_all2 named_row ?own rows1"
    by auto
  from all [of recs] obtain rows2 where
    r2: "map_py (add_employee_name L lookup) recs = Inr rows2" "list_all2 named_row recs rows2"
    by auto
  have emp_case: "sget (session w) ''role'' = JStr ''Employee'' \<Longrightarrow>
     attendance_list L w =
       (Inr (Render ''attendance/list.html'' [(''attendance_records'', JArr rows1)]), w)"
    using assms(1-3) lk(1) r1(1) own_filter [OF assms(4), of "sget (session w) ''employee_id''"]
    by (simp add: attendance_list_def login_required_def attendance_list_view_def run_defs
        build_lookup_def Let_def)
  have adm_case: "sget (session w) ''role'' = JStr ''Admin'' \<Longrightarrow>
     attendance_list L w =
       (Inr (Render ''attendance/list.html'' [(''attendance_records'', JArr rows2)]), w)"
    using assms(1-3) lk(1) r2(1)
    by (simp add: attendance_list_def login_required_def attendance_list_view_def run_defs
        build_lookup_def Let_def)
  from emp_case adm_case r1(2) r2(2) show ?thesis by blast
qed

text \<open>
  An instance: employee 9 sees records 1 and 3 of three; an Admin sees all three.
\<close>

theorem attendance_list_rows_witness:
  "fst (attendance_list sample_lib
      (sample_world [(ATTENDANCE_FILE, JArr sample_attendance),
                     (EMPLOYEES_FILE, JArr sample_employees)]
         [(''user_id'', JInt 5), (''role'', JStr ''Employee''), (''employee_id'', JInt 9)]))
     = Inr (Render ''attendance/list.html''
         [(''attendance_records'',
           JArr [att_named 1 9 ''2025-10-01'' ''Sara Malik'',
                 att_named 3 9 ''2025-10-02'' ''Sara Malik''])]) \<and>
   fst (attendance_list sample_lib
      (sample_world [(ATTENDANCE_FILE, JArr sample_attendance),
                     (EMPLOYEES_FILE, JArr sample_employees)] admin_session))
     = Inr (Render ''attendance/list.html''
         [(''attendance_records'',
           JArr [att_named 1 9 ''2025-10-01'' ''Sara Malik'',
                 att_named 2 8 ''2025-10-01'' ''Ali Khan'',
                 att_named 3 9 ''2025-10-02'' ''Sara Malik''])])"
proof -
  let ?files = "[(ATTENDANCE_FILE, JArr sample_attendance),
                 (EMPLOYEES_FILE, JArr sample_employees)]"
  let ?we = "sample_world ?files
         [(''user_id'', JInt 5), (''role'', JStr ''Employee''), (''employee_id'', JInt 9)]"
  let ?wa = "sample_world ?files admin_session"
  have u: "map_of (session ?we) ''user_id'' \<noteq> None" "map_of (session ?wa) ''user_id'' \<noteq> None"
    by (simp_all add: sample_defs admin_session_def)
  have f: "files ?we ATTENDANCE_FILE = Some (Wellformed (JArr sample_attendance))"
    "files ?we EMPLOYEES_FILE = Some (Wellformed (JArr sample_employees))"
    "files ?wa ATTENDANCE_FILE = Some (Wellformed (JArr sample_attendance))"
    "files ?wa EMPLOYEES_FILE = Some (Wellformed (JArr sample_employees))"
    by (simp_all add: sample_defs ATTENDANCE_FILE_def EMPLOYEES_FILE_def)
  have r: "\<forall>r\<in>set sample_attendance. has_scalar ''employee_id'' r"
    by (simp add: sample_attendance_def att_record_def has_scalar_def)
  have e: "\<forall>e\<in>set sample_employees. has_scalar ''employee_id'' e \<and>
      has_field ''first_name'' e \<and> has_field ''last_name'' e"
    by (simp add: sample_employees_def emp_record_def has_scalar_def has_field_def)
  from attendance_list_rows [OF u(1) f(1,2) r e, of sample_lib]
       attendance_list_rows [OF u(2) f(3,4) r e, of sample_lib]
  show ?thesis
    by (simp add: attendance_list_def login_required_def attendance_list_view_def run_defs
        build_lookup_def add_employee_name_def key_is_def Let_def sget_def admin_session_def
        sample_defs sample_attendance_def sample_employees_def att_record_def emp_record_def
        att_named_def ATTENDANCE_FILE_def EMPLOYEES_FILE_def)
qed

section \<open>Allocating ids\<close>

lemma num_gt_int [simp]: "num_gt (JInt a) (JInt b) = (b < a)"
  by (simp add: num_gt_def)

lemma py_max_fold: "py_max (JInt m) (map JInt xs) = JInt (fold max xs m)"
proof (induction xs arbitrary: m)
  case Nil
  then show ?case by simp
next
  case (Cons y ys)
  have "(if m < y then JInt y else JInt m) = JInt (max y m)"
    by (simp add: max_def)
  with Cons [of "max y m"] show ?case by simp
qed

lemma py_max_int: "py_max (JInt m) (map JInt xs) = JInt (Max (set (m # xs)))"
  by (simp only: py_max_fold Max.set_eq_fold)

lemma max_plus_one_int:
  "max_plus_one L (map JInt xs) = Inr (JInt (1 + (if xs = [] then 0 else Max (set xs))))"
proof (cases xs)
  case Nil
  then show ?thesis by (simp add: max_plus_one_def)
next
  case (Cons y ys)
  have "list_all is_num (map JInt xs)"
    by (simp add: list_all_iff)
  with Cons py_max_int [of y ys] show ?thesis
    by (simp add: max_plus_one_def)
qed

lemma ids_get:
  "\<forall>r\<in>set records. int_id_or_none key r \<Longrightarrow>
     map_py (\<lambda>r. py_get r key (JInt 0)) records = Inr (map JInt (map (id_or_0 key) records))"
proof (induction records)
  case Nil
  then show ?case by simp
next
  case (Cons r rs)
  then show ?case
    by (auto simp: int_id_or_none_def id_or_0_def split: sum.splits jval.splits)
qed

text \<open>
  With \<^verbatim>\<open>r.get(key, 0)\<close> (attendance, leave, payroll, job and applicant records), the new
  id is one more than the largest id, a record without an id counting as 0, and 1 for
  an empty list.
\<close>

lemma next_id_get_value:
  assumes "\<forall>r\<in>set records. int_id_or_none key r"
  shows "next_id_get L key records =
     Inr (JInt (1 + (if records = [] then 0 else Max (set (map (id_or_0 key) records)))))"
  using ids_get [OF assms] max_plus_one_int [of L "map (id_or_0 key) records"]
  by (simp add: next_id_get_def)

text \<open>The two examples of the specification, under both ways of reading the ids.\<close>

lemma next_id_examples:
  "next_id_get L ''id'' [] = Inr (JInt 1)"
  "next_id_get L ''id'' [JObj [(''id'', JInt 3)], JObj [(''id'', JInt 7)]] = Inr (JInt 8)"
  "next_id_sub L ''id'' [] = Inr (JInt 1)"
  "next_id_sub L ''id'' [JObj [(''id'', JInt 3)], JObj [(''id'', JInt 7)]] = Inr (JInt 8)"
  "next_id_get L ''id'' [JObj [(''name'', JStr ''x'')], JObj [(''id'', JInt 7)]] = Inr (JInt 8)"
  by (simp_all add: next_id_get_def next_id_sub_def max_plus_one_def num_gt_def)

text \<open>
  C5 claims that the new id is one more than the largest existing id, a record without the
  id key counting as 0, for every list of records. \<^verbatim>\<open>attendance_mark\<close> reads the ids with
  \<^verbatim>\<open>r.get('attendance_id', 0)\<close> and does so; \<^verbatim>\<open>employee_add\<close> reads them with
  \<^verbatim>\<open>e['employee_id']\<close>: on an employee record without \<^verbatim>\<open>employee_id\<close> it raises
  \<^verbatim>\<open>KeyError\<close> and no employee is added.
\<close>

theorem employee_add_missing_id:
  "next_id_get sample_lib ''attendance_id'' [JObj [(''employee_id'', JInt 9)]] = Inr (JInt 1) \<and>
   next_id_sub sample_lib ''employee_id'' [JObj [(''first_name'', JStr ''Ali'')]] = Inl KeyError \<and>
   employee_add sample_lib
      (sample_post [(''first_name'', ''Sara''), (''last_name'', ''Malik''), (''salary'', ''50000'')])
      (sample_world [(EMPLOYEES_FILE, JArr [JObj [(''first_name'', JStr ''Ali'')]])] admin_session)
    = (Inl KeyError,
       sample_world [(EMPLOYEES_FILE, JArr [JObj [(''first_name'', JStr ''Ali'')]])] admin_session)"
  by (simp add: next_id_get_def next_id_sub_def max_plus_one_def employee_add_def
      employee_add_view_def role_required_def run_defs sget_def sample_defs admin_session_def
      EMPLOYEES_FILE_def DEPARTMENTS_FILE_def)

section \<open>One attendance record per employee and day\<close>

lemma same_day_key:
  "day_key r = day_key r' \<Longrightarrow> day_key s = day_key s' \<Longrightarrow> same_day r s = same_day r' s'"
  by (simp add: day_key_def same_day_def)

lemma list_ex_same_day_key:
  "day_key r = day_key r' \<Longrightarrow> map day_key xs = map day_key ys \<Longrightarrow>
     list_ex (same_day r) xs = list_ex (same_day r') ys"
proof (induction xs arbitrary: ys)
  case Nil
  then show ?case by simp
next
  case (Cons x xs)
  then obtain y ys' where ys: "ys = y # ys'" "day_key x = day_key y"
    "map day_key xs = map day_key ys'"
    by (cases ys) auto
  with Cons.IH [OF Cons.prems(1) ys(3)] same_day_key [OF Cons.prems(1) ys(2)]
  show ?case by simp
qed

lemma unique_per_day_key:
  "map day_key xs = map day_key ys \<Longrightarrow> unique_per_day xs = unique_per_day ys"
proof (induction xs arbitrary: ys)
  case Nil
  then show ?case by simp
next
  case (Cons x xs)
  then obtain y ys' where ys: "ys = y # ys'" "day_key x = day_key y"
    "map day_key xs = map day_key ys'"
    by (cases ys) auto
  with Cons.IH [OF ys(3)] list_ex_same_day_key [OF ys(2,3)] show ?case by simp
qed

lemma unique_per_day_append:
  "unique_per_day (xs @ [n]) = (unique_per_day xs \<and> \<not> list_ex (\<lambda>r. same_day r n) xs)"
  by (induction xs) auto

lemma unique_per_day_filter: "unique_per_day xs \<Longrightarrow> unique_per_day (filter q xs)"
  by (induction xs) (auto simp: list_ex_iff)

lemma filter_py_result: "filter_py p xs = Inr ys \<Longrightarrow> ys = filter (\<lambda>x. p x = Inr True) xs"
  by (induction xs arbitrary: ys) (auto split: sum.splits)

lemma find_first_miss:
  "find_first p xs = Inr None \<Longrightarrow> \<forall>x\<in>set xs. p x = Inr False"
  by (induction xs) (auto split: sum.splits bool.splits option.splits)

text \<open>Deleting keeps every (employee_id, date) pair unique.\<close>

lemma attendance_delete_unique:
  assumes "files w ATTENDANCE_FILE = Some (Wellformed (JArr recs))" "unique_per_day recs"
  shows "\<exists>recs'. files (snd (attendance_delete i w)) ATTENDANCE_FILE
            = Some (Wellformed (JArr recs')) \<and> unique_per_day recs'"
  using assms
  by (auto simp: attendance_delete_def attendance_delete_view_def role_required_def run_defs
      py_next_def unique_per_day_filter dest!: filter_py_result
      split: sum.splits option.splits prod.splits)


lemma day_key_setitem:
  "py_setitem r k v = Inr r' \<Longrightarrow> k \<noteq> ''employee_id'' \<Longrightarrow> k \<noteq> ''date'' \<Longrightarrow>
     day_key r' = day_key r"
  by (cases r) (auto simp: day_key_def update_conv')

lemma check_in_files:
  "files (snd (check_in L rq e (JArr recs) hit w)) = files w \<or>
   (hit = None \<and>
    (\<exists>new_id. files (snd (check_in L rq e (JArr recs) hit w)) =
       (files w)(ATTENDANCE_FILE \<mapsto> Wellformed (JArr (recs @
          [JObj [(''attendance_id'', new_id),
                 (''employee_id'', JInt e),
                 (''date'', JStr (today rq)),
                 (''check_in_time'', JStr (clock rq)),
                 (''check_out_time'', JNull),
                 (''notes'', JStr (form_get_default rq ''notes'' [])),
                 (''status'', JStr ''Present'')]])))))"
  by (cases hit; cases "next_id_get L ''attendance_id'' recs")
     (auto simp: check_in_def run_defs)

lemma check_out_files:
  "files (snd (check_out rq (JArr recs) hit w)) = files w \<or>
   (\<exists>pre r post r'. hit = Some (pre, r, post) \<and> day_key r' = day_key r \<and>
      files (snd (check_out rq (JArr recs) hit w)) =
        (files w)(ATTENDANCE_FILE \<mapsto> Wellformed (JArr (pre @ r' # post))))"
proof (cases hit)
  case None
  then show ?thesis by (simp add: check_out_def run_defs)
next
  case (Some t)
  then obtain pre r post where hit: "hit = Some (pre, r, post)"
    by (cases t) auto
  show ?thesis
  proof (cases "py_getitem r ''check_out_time''")
    case (Inl e)
    with hit show ?thesis by (simp add: check_out_def run_defs)
  next
    case (Inr out)
    then obtain kvs where r: "r = JObj kvs"
      by (cases r) auto
    let ?r1 = "JObj (AList.update ''check_out_time'' (JStr (clock rq)) kvs)"
    have k1: "day_key ?r1 = day_key r"
      by (rule day_key_setitem [of r "''check_out_time''" "JStr (clock rq)"]) (simp_all add: r)
    have k2: "day_key (JObj (AList.update ''notes'' v
                 (AList.update ''check_out_time'' (JStr (clock rq)) kvs))) = day_key r" for v
      using day_key_setitem [of ?r1 "''notes''" v] k1 by simp
    from Inr hit r k1 k2 show ?thesis
      by (auto simp: check_out_def run_defs)
  qed
qed

lemma bnd_ret_state: "snd (bnd m (\<lambda>_. ret r) w) = snd (m w)"
  by (cases "m w" rule: prod.exhaust; cases "fst (m w)") (auto simp: bnd_def ret_def)

lemma bnd_steps:
  "bnd (session_get k) f w = f (sget (session w) k) w"
  "bnd (lift (Inr x)) g w = g x w"
  "bnd (lift (Inl e)) g w = (Inl e, w)"
  "bnd (load p) h w =
     (case read_json_file (files w) p of Inl e \<Rightarrow> (Inl e, w) | Inr d \<Rightarrow> h d w)"
  by (simp_all add: bnd_def session_get_def lift_def load_def split: sum.splits)

lemma attendance_mark_view_files:
  assumes "files w ATTENDANCE_FILE = Some (Wellformed (JArr recs))"
  shows "files (snd (attendance_mark_view L rq w)) = files w \<or>
    (\<exists>e new_id. find_first (is_today_record e (today rq)) recs = Inr None \<and>
       files (snd (attendance_mark_view L rq w)) =
         (files w)(ATTENDANCE_FILE \<mapsto> Wellformed (JArr (recs @
            [JObj [(''attendance_id'', new_id),
                   (''employee_id'', JInt e),
                   (''date'', JStr (today rq)),
                   (''check_in_time'', JStr (clock rq)),
                   (''check_out_time'', JNull),
                   (''notes'', JStr (form_get_default rq ''notes'' [])),
                   (''status'', JStr ''Present'')]])))) \<or>
    (\<exists>pre r post r'. recs = pre @ r # post \<and> day_key r' = day_key r \<and>
       files (snd (attendance_mark_view L rq w)) =
         (files w)(ATTENDANCE_FILE \<mapsto> Wellformed (JArr (pre @ r' # post))))"
proof (cases "req_method rq = POST")
  case False
  then show ?thesis
    by (auto simp: attendance_mark_view_def run_defs split: sum.splits)
next
  case True
  show ?thesis
  proof (cases "py_int L (form_get rq ''employee_id'')")
    case (Inl err)
    with True show ?thesis by (simp add: attendance_mark_view_def run_defs)
  next
    case (Inr e)
    show ?thesis
    proof (cases "py_eq (sget (session w) ''role'') (JStr ''Employee'') \<and>
              \<not> py_eq (JInt e) (sget (session w) ''employee_id'')")
      case True
      with \<open>req_method rq = POST\<close> Inr show ?thesis
        by (simp add: attendance_mark_view_def run_defs)
    next
      case False
      show ?thesis
      proof (cases "find_first (is_today_record e (today rq)) recs")
        case (Inl err)
        with False \<open>req_method rq = POST\<close> Inr assms show ?thesis
          by (simp add: attendance_mark_view_def run_defs py_next_def)
      next
        case hit: (Inr hit)
        let ?branch = "if form_get rq ''action'' = Some ''check_in''
                then check_in L rq e (JArr recs) hit
                else check_out rq (JArr recs) hit"
        have eq: "snd (attendance_mark_view L rq w) = snd (?branch w)"
          using False \<open>req_method rq = POST\<close> Inr assms hit
          by (auto simp: attendance_mark_view_def py_next_def bnd_steps bnd_ret_state
              simp del: py_eq.simps)
        show ?thesis
        proof (cases "form_get rq ''action'' = Some ''check_in''")
          case True
          with eq have eq': "snd (attendance_mark_view L rq w) = snd (check_in L rq e (JArr recs) hit w)"
            by simp
          from check_in_files [of L rq e recs hit w]
          consider "files (snd (check_in L rq e (JArr recs) hit w)) = files w"
            | new_id where "hit = None"
              "files (snd (check_in L rq e (JArr recs) hit w)) =
                (files w)(ATTENDANCE_FILE \<mapsto> Wellformed (JArr (recs @
                  [JObj [(''attendance_id'', new_id),
                         (''employee_id'', JInt e),
                         (''date'', JStr (today rq)),
                         (''check_in_time'', JStr (clock rq)),
                         (''check_out_time'', JNull),
                         (''notes'', JStr (form_get_default rq ''notes'' [])),
                         (''status'', JStr ''Present'')]])))"
            by blast
          then show ?thesis
          proof cases
            case 1
            with eq' show ?thesis by simp
          next
            case 2
            with hit eq' show ?thesis
              by (intro disjI2 disjI1 exI [of _ e] exI [of _ new_id]) simp
          qed
        next
          case False
          with eq have eq': "snd (attendance_mark_view L rq w) = snd (check_out rq (JArr recs) hit w)"
            by simp
          from check_out_files [of rq recs hit w]
          consider "files (snd (check_out rq (JArr recs) hit w)) = files w"
            | pre r post r' where "hit = Some (pre, r, post)" "day_key r' = day_key r"
              "files (snd (check_out rq (JArr recs) hit w)) =
                 (files w)(ATTENDANCE_FILE \<mapsto> Wellformed (JArr (pre @ r' # post)))"
            by blast
          then show ?thesis
          proof cases
            case 1
            with eq' show ?thesis by simp
          next
            case 2
            from hit 2(1) have "recs = pre @ r # post"
              by (auto dest: find_first_hit)
            with 2(2,3) eq' show ?thesis
              by (intro disjI2 exI [of _ pre] exI [of _ r] exI [of _ post] exI [of _ r']) simp
          qed
        qed
      qed
    qed
  qed
qed

text \<open>
  Marking attendance keeps every (employee_id, date) pair unique: check-in appends a record
  only when the loop found none for the employee today, and check-out assigns only
  \<^verbatim>\<open>check_out_time\<close> and \<^verbatim>\<open>notes\<close>.
\<close>

lemma attendance_mark_unique:
  assumes "files w ATTENDANCE_FILE = Some (Wellformed (JArr recs))" "unique_per_day recs"
  shows "\<exists>recs'. files (snd (attendance_mark L rq w)) ATTENDANCE_FILE
            = Some (Wellformed (JArr recs')) \<and> unique_per_day recs'"
proof (cases "map_of (session w) ''user_id'' = None")
  case True
  with assms show ?thesis
    by (simp add: attendance_mark_def login_required_def run_defs)
next
  case False
  then have eq: "attendance_mark L rq w = attendance_mark_view L rq w"
    by (simp add: attendance_mark_def login_required_def run_defs)
  from attendance_mark_view_files [OF assms(1), of L rq]
  consider "files (snd (attendance_mark_view L rq w)) = files w"
    | e new_id where "find_first (is_today_record e (today rq)) recs = Inr None"
       "files (snd (attendance_mark_view L rq w)) =
         (files w)(ATTENDANCE_FILE \<mapsto> Wellformed (JArr (recs @
            [JObj [(''attendance_id'', new_id),
                   (''employee_id'', JInt e),
                   (''date'', JStr (today rq)),
                   (''check_in_time'', JStr (clock rq)),
                   (''check_out_time'', JNull),
                   (''notes'', JStr (form_get_default rq ''notes'' [])),
                   (''status'', JStr ''Present'')]])))"
    | pre r post r' where "recs = pre @ r # post" "day_key r' = day_key r"
       "files (snd (attendance_mark_view L rq w)) =
         (files w)(ATTENDANCE_FILE \<mapsto> Wellformed (JArr (pre @ r' # post)))"
    by blast
  then show ?thesis
  proof cases
    case 1
    with assms eq show ?thesis by simp
  next
    case 2
    from 2(1) have "\<forall>x\<in>set recs. is_today_record e (today rq) x = Inr False"
      by (rule find_first_miss)
    then have "\<not> list_ex (\<lambda>r. same_day r
            (JObj [(''attendance_id'', new_id),
                   (''employee_id'', JInt e),
                   (''date'', JStr (today rq)),
                   (''check_in_time'', JStr (clock rq)),
                   (''check_out_time'', JNull),
                   (''notes'', JStr (form_get_default rq ''notes'' [])),
                   (''status'', JStr ''Present'')])) recs"
      by (auto simp: list_ex_iff same_day_def is_today_record_def key_is_def
          split: sum.splits if_splits)
    with assms 2(2) eq show ?thesis
      by (simp add: unique_per_day_append)
  next
    case 3
    from 3(1,2) have "map day_key (pre @ r' # post) = map day_key recs" by simp
    from unique_per_day_key [OF this] assms(2) 3(3) eq show ?thesis by simp
  qed
qed

text \<open>
  C4 claims that every attendance operation keeps each (employee_id, date) pair unique.
  \<^verbatim>\<open>attendance_mark\<close> and \<^verbatim>\<open>attendance_delete\<close> do. \<^verbatim>\<open>attendance_edit\<close> assigns
  the submitted date without looking for another record of the same employee on that date:
  moving record 2 of employee 9 from 2 October to 1 October, where record 1 of employee 9
  already is, leaves two records for one pair.
\<close>

theorem attendance_edit_duplicates_day:
  "unique_per_day [att_record 1 9 ''2025-10-01'', att_record 2 9 ''2025-10-02''] \<and>
   files (snd (attendance_edit
      (sample_post [(''date'', ''2025-10-01''), (''check_in_time'', ''09:00:00''),
                    (''check_out_time'', ''''), (''notes'', ''''), (''status'', ''Present'')])
      2
      (sample_world
         [(ATTENDANCE_FILE, JArr [att_record 1 9 ''2025-10-01'', att_record 2 9 ''2025-10-02''])]
         admin_session))) ATTENDANCE_FILE
     = Some (Wellformed
         (JArr [att_record 1 9 ''2025-10-01'', att_record 2 9 ''2025-10-01''])) \<and>
   \<not> unique_per_day [att_record 1 9 ''2025-10-01'', att_record 2 9 ''2025-10-01'']"
  by (simp add: same_day_def att_record_def attendance_edit_def attendance_edit_view_def
      role_required_def run_defs sget_def sample_defs admin_session_def py_next_def key_is_def
      form_get_def form_get_default_def form_get_or_none_def ATTENDANCE_FILE_def)

section \<open>From application to employee\<close>

lemma has_int_idD:
  "has_int_id key r \<Longrightarrow>
     py_getitem r key = Inr (JInt (id_or_0 key r)) \<and> int_id_or_none key r"
  by (cases r)
     (auto simp: has_int_id_def id_or_0_def int_id_or_none_def
           split: sum.splits jval.splits option.splits)

lemma ids_sub:
  "\<forall>r\<in>set records. has_int_id key r \<Longrightarrow>
     map_py (\<lambda>r. py_getitem r key) records = Inr (map JInt (map (id_or_0 key) records))"
  by (induction records) (auto dest!: has_int_idD)

lemma next_id_sub_value:
  assumes "\<forall>r\<in>set records. has_int_id key r"
  shows "next_id_sub L key records =
     Inr (JInt (1 + (if records = [] then 0 else Max (set (map (id_or_0 key) records)))))"
  using ids_sub [OF assms] max_plus_one_int [of L "map (id_or_0 key) records"]
  by (simp add: next_id_sub_def)

lemma py_eq_int: "py_eq (JInt a) (JInt b) = (a = b)"
  by simp

lemma fresh_id:
  assumes "\<forall>r\<in>set records. has_int_id key r" "r \<in> set records"
  shows "key_is key (JInt (1 + (if records = [] then 0 else Max (set (map (id_or_0 key) records))))) r
           = Inr False"
proof -
  from assms have g: "py_getitem r key = Inr (JInt (id_or_0 key r))"
    by (auto dest!: has_int_idD)
  from assms(2) have ne: "records \<noteq> []" by auto
  from assms(2) have "id_or_0 key r \<le> Max (set (map (id_or_0 key) records))"
    by (intro Max_ge) auto
  then have "id_or_0 key r \<noteq> 1 + Max (set (map (id_or_0 key) records))"
    by linarith
  with ne show ?thesis
    by (simp add: key_is_def g py_eq_int del: py_eq.simps)
qed


lemma job_apply_appends:
  assumes "req_method rq = POST"
    and "read_json_file (files w) JOBS_FILE = Inr jobs"
    and "py_next (key_is ''job_id'' (JInt job_id)) jobs = Inr (Some (jpre, job, jpost))"
    and "read_json_file (files w) APPLICANTS_FILE = Inr (JArr apps)"
    and "\<forall>a\<in>set apps. has_int_id ''applicant_id'' a"
    and "resume_accepted L rq"
    and "py_int_default0 L (form_get rq ''experience_years'') = Inr years"
    and "py_float_default0 L (form_get rq ''expected_salary'') = Inr salary"
  shows
   "fst (job_apply L rq job_id w) = Inr (Redirect ''job_view'' [(''job_id'', JInt job_id)]) \<and>
    files (snd (job_apply L rq job_id w)) =
      (files w)(APPLICANTS_FILE \<mapsto> Wellformed (JArr (apps @
         [new_applicant rq job_id
            (1 + (if apps = [] then 0 else Max (set (map (id_or_0 ''applicant_id'') apps))))
            years salary (resume_of L rq)])))"
proof -
  from assms(5) have "\<forall>a\<in>set apps. int_id_or_none ''applicant_id'' a"
    by (auto dest!: has_int_idD)
  note nid = next_id_get_value [OF this, of L]
  show ?thesis
  proof (cases "upload rq")
    case None
    with assms nid show ?thesis
      by (simp add: job_apply_def run_defs new_applicant_def resume_of_def
            del: read_json_file.simps)
  next
    case (Some filename)
    show ?thesis
    proof (cases "filename = []")
      case True
      with Some assms nid show ?thesis
        by (simp add: job_apply_def run_defs new_applicant_def resume_of_def
            del: read_json_file.simps)
    next
      case False
      with Some assms(6) have "allowed_file filename"
        "stamp rq @ secure_filename L filename \<noteq> []"
        by (simp_all add: resume_accepted_def)
      with False Some assms(1-5,7,8) nid show ?thesis
        by (simp add: job_apply_def run_defs new_applicant_def save_uploaded_file_def Let_def
            resume_of_def del: read_json_file.simps)
    qed
  qed
qed


lemma applicant_onboard_hires:
  assumes "req_method rq2 = POST"
    and "map_of (session w1) ''user_id'' \<noteq> None"
    and "one_of (sget (session w1) ''role'') [''Admin'', ''HR Staff'']"
    and "files w1 APPLICANTS_FILE = Some (Wellformed (JArr (apps @
           [new_applicant rq job_id new_id years salary resume])))"
    and "\<forall>a\<in>set apps. key_is ''applicant_id'' (JInt new_id) a = Inr False"
    and "read_json_file (files w1) EMPLOYEES_FILE = Inr (JArr emps)"
    and "\<forall>e\<in>set emps. has_int_id ''employee_id'' e"
    and "py_float_default0 L (form_get rq2 ''salary'') = Inr pay"
  shows "\<exists>employee hired.
    files (snd (applicant_onboard L rq2 new_id w1)) =
      (files w1)(EMPLOYEES_FILE \<mapsto> Wellformed (JArr (emps @ [employee])),
                 APPLICANTS_FILE \<mapsto> Wellformed (JArr (apps @ [hired]))) \<and>
    list_all (copied (new_applicant rq job_id new_id years salary resume) employee)
      [''first_name'', ''last_name'', ''cnic'', ''email'', ''contact''] \<and>
    py_getitem hired ''applicant_id'' = Inr (JInt new_id) \<and>
    py_getitem hired ''status'' = Inr (JStr ''Hired'')"
proof -
  let ?a = "new_applicant rq job_id new_id years salary resume"
  let ?eid = "JInt (1 + (if emps = [] then 0 else Max (set (map (id_or_0 ''employee_id'') emps))))"
  let ?employee = "JObj [(''employee_id'', ?eid),
                         (''first_name'', field (form_get rq ''first_name'')),
                         (''last_name'', field (form_get rq ''last_name'')),
                         (''cnic'', field (form_get rq ''cnic'')),
                         (''email'', field (form_get rq ''email'')),
                         (''contact'', field (form_get rq ''contact'')),
                         (''department'', field (form_get rq2 ''department'')),
                         (''designation'', field (form_get rq2 ''designation'')),
                         (''join_date'', field (form_get rq2 ''join_date'')),
                         (''status'', JStr ''Active''),
                         (''salary'', JFloat pay)]"
  have hit: "key_is ''applicant_id'' (JInt new_id) ?a = Inr True"
    by (simp add: key_is_def new_applicant_def)
  from find_first_split [OF assms(5) hit, of "[]"]
  have ff: "find_first (key_is ''applicant_id'' (JInt new_id)) (apps @ [?a])
              = Inr (Some (apps, ?a, []))" .
  note eid = next_id_sub_value [OF assms(7), of L]
  from assms(4) have ra: "read_json_file (files w1) APPLICANTS_FILE = Inr (JArr (apps @ [?a]))"
    by simp
  obtain hired where h: "set_fields ?a
      [(''status'', JStr ''Hired''),
       (''notes'', JStr (''Hired as '' @ fmt L (field (form_get rq2 ''designation'')) @
                         '' in '' @ fmt L (field (form_get rq2 ''department'')) @
                         '' department. Employee ID: '' @ fmt L ?eid))] = Inr hired"
    by (simp add: new_applicant_def)
  then have hp: "py_getitem hired ''applicant_id'' = Inr (JInt new_id)"
    "py_getitem hired ''status'' = Inr (JStr ''Hired'')"
    by (auto simp: new_applicant_def)
  have "files (snd (applicant_onboard L rq2 new_id w1)) =
      (files w1)(EMPLOYEES_FILE \<mapsto> Wellformed (JArr (emps @ [?employee])),
                 APPLICANTS_FILE \<mapsto> Wellformed (JArr (apps @ [hired])))"
    using assms(1,6,8) ra ff eid h
    unfolding new_applicant_def
    by (simp add: applicant_onboard_def authorized [OF assms(2,3)] applicant_onboard_view_def
        run_defs py_next_def EMPLOYEES_FILE_def APPLICANTS_FILE_def
        del: read_json_file.simps set_fields.simps)
  moreover have "list_all (copied ?a ?employee)
      [''first_name'', ''last_name'', ''cnic'', ''email'', ''contact'']"
    by (simp add: copied_def new_applicant_def)
  ultimately show ?thesis
    using hp by (intro exI [of _ ?employee] exI [of _ hired]) simp
qed

text \<open>
  C9. A POST to \<^verbatim>\<open>job_apply\<close> for a job that exists (with no resume or an allowed
  one, and numeric fields that parse) appends one applicant record, with a fresh id and
  status \<^verbatim>\<open>Applied\<close>. A POST to \<^verbatim>\<open>applicant_onboard\<close> for that id by an Admin or
  HR Staff (with a salary that parses) then appends exactly one employee record whose
  \<^verbatim>\<open>first_name\<close>, \<^verbatim>\<open>last_name\<close>, \<^verbatim>\<open>cnic\<close>, \<^verbatim>\<open>email\<close> and \<^verbatim>\<open>contact\<close> are
  the applicant's, and sets the applicant's status to \<^verbatim>\<open>Hired\<close>. The applicant and
  employee records already there carry integer ids.
\<close>

theorem apply_then_onboard:
  assumes "req_method rq = POST"
    and "read_json_file (files w) JOBS_FILE = Inr jobs"
    and "py_next (key_is ''job_id'' (JInt job_id)) jobs = Inr (Some (jpre, job, jpost))"
    and "read_json_file (files w) APPLICANTS_FILE = Inr (JArr apps)"
    and "\<forall>a\<in>set apps. has_int_id ''applicant_id'' a"
    and "resume_accepted L rq"
    and "py_int_default0 L (form_get rq ''experience_years'') = Inr years"
    and "py_float_default0 L (form_get rq ''expected_salary'') = Inr salary"
    and "files w1 = files (snd (job_apply L rq job_id w))"
    and "map_of (session w1) ''user_id'' \<noteq> None"
    and "one_of (sget (session w1) ''role'') [''Admin'', ''HR Staff'']"
    and "req_method rq2 = POST"
    and "read_json_file (files w1) EMPLOYEES_FILE = Inr (JArr emps)"
    and "\<forall>e\<in>set emps. has_int_id ''employee_id'' e"
    and "py_float_default0 L (form_get rq2 ''salary'') = Inr pay"
  shows "\<exists>new_id applicant employee hired.
    fst (job_apply L rq job_id w) = Inr (Redirect ''job_view'' [(''job_id'', JInt job_id)]) \<and>
    files (snd (job_apply L rq job_id w)) =
      (files w)(APPLICANTS_FILE \<mapsto> Wellformed (JArr (apps @ [applicant]))) \<and>
    py_getitem applicant ''applicant_id'' = Inr (JInt new_id) \<and>
    py_getitem applicant ''job_id'' = Inr (JInt job_id) \<and>
    py_getitem applicant ''status'' = Inr (JStr ''Applied'') \<and>
    files (snd (applicant_onboard L rq2 new_id w1)) =
      (files w1)(EMPLOYEES_FILE \<mapsto> Wellformed (JArr (emps @ [employee])),
                 APPLICANTS_FILE \<mapsto> Wellformed (JArr (apps @ [hired]))) \<and>
    list_all (copied applicant employee)
      [''first_name'', ''last_name'', ''cnic'', ''email'', ''contact''] \<and>
    py_getitem hired ''applicant_id'' = Inr (JInt new_id) \<and>
    py_getitem hired ''status'' = Inr (JStr ''Hired'')"
proof -
  let ?id = "1 + (if apps = [] then 0 else Max (set (map (id_or_0 ''applicant_id'') apps)))"
  let ?a = "new_applicant rq job_id ?id years salary (resume_of L rq)"
  from job_apply_appends [OF assms(1-8)]
  have step1: "fst (job_apply L rq job_id w)
                 = Inr (Redirect ''job_view'' [(''job_id'', JInt job_id)])"
    "files (snd (job_apply L rq job_id w)) =
       (files w)(APPLICANTS_FILE \<mapsto> Wellformed (JArr (apps @ [?a])))"
    by simp_all
  have props: "py_getitem ?a ''applicant_id'' = Inr (JInt ?id)"
    "py_getitem ?a ''job_id'' = Inr (JInt job_id)"
    "py_getitem ?a ''status'' = Inr (JStr ''Applied'')"
    by (simp_all add: new_applicant_def)
  from assms(9) step1(2)
  have stored: "files w1 APPLICANTS_FILE = Some (Wellformed (JArr (apps @ [?a])))"
    by simp
  from assms(5) have fresh: "\<forall>a\<in>set apps. key_is ''applicant_id'' (JInt ?id) a = Inr False"
    using fresh_id [of apps "''applicant_id''"] by blast
  from applicant_onboard_hires [OF assms(12,10,11) stored fresh assms(13,14,15)]
  obtain employee hired where step2:
    "files (snd (applicant_onboard L rq2 ?id w1)) =
      (files w1)(EMPLOYEES_FILE \<mapsto> Wellformed (JArr (emps @ [employee])),
                 APPLICANTS_FILE \<mapsto> Wellformed (JArr (apps @ [hired])))"
    "list_all (copied ?a employee) [''first_name'', ''last_name'', ''cnic'', ''email'', ''contact'']"
    "py_getitem hired ''applicant_id'' = Inr (JInt ?id)"
    "py_getitem hired ''status'' = Inr (JStr ''Hired'')"
    by blast
  from step1 props step2 show ?thesis
    by (intro exI [of _ ?id] exI [of _ ?a] exI [of _ employee] exI [of _ hired]) simp
qed

text \<open>
  An instance: Omar applies for job 5 and becomes applicant 3; HR onboards him as
  employee 9.
\<close>

lemmas office_defs = sample_application_def sample_onboarding_def sample_office_def
  hr_session_def emp_record_def JOBS_FILE_def APPLICANTS_FILE_def EMPLOYEES_FILE_def

theorem apply_then_onboard_witness:
  "files (snd (job_apply sample_lib sample_application 5 sample_office)) APPLICANTS_FILE =
     Some (Wellformed (JArr
       [JObj [(''applicant_id'', JInt 2), (''status'', JStr ''Rejected'')],
        new_applicant sample_application 5 3 3 50000 JNull])) \<and>
   files (snd (applicant_onboard sample_lib sample_onboarding 3
      ((snd (job_apply sample_lib sample_application 5 sample_office))
         \<lparr>session := hr_session\<rparr>))) EMPLOYEES_FILE =
     Some (Wellformed (JArr
       [emp_record 8 ''Ali'' ''Khan'',
        JObj [(''employee_id'', JInt 9), (''first_name'', JStr ''Omar''),
              (''last_name'', JStr ''Aziz''), (''cnic'', JStr ''35202''),
              (''email'', JStr ''omar@example.com''), (''contact'', JStr ''0300''),
              (''department'', JStr ''Finance''), (''designation'', JStr ''Accountant''),
              (''join_date'', JStr ''2025-11-01''), (''status'', JStr ''Active''),
              (''salary'', JFloat 50000)]])) \<and>
   files (snd (applicant_onboard sample_lib sample_onboarding 3
      ((snd (job_apply sample_lib sample_application 5 sample_office))
         \<lparr>session := hr_session\<rparr>))) APPLICANTS_FILE =
     Some (Wellformed (JArr
       [JObj [(''applicant_id'', JInt 2), (''status'', JStr ''Rejected'')],
        JObj [(''applicant_id'', JInt 3), (''job_id'', JInt 5),
              (''first_name'', JStr ''Omar''), (''last_name'', JStr ''Aziz''),
              (''email'', JStr ''omar@example.com''), (''contact'', JStr ''0300''),
              (''cnic'', JStr ''35202''), (''experience_years'', JInt 3),
              (''current_company'', JStr []), (''expected_salary'', JFloat 50000),
              (''cover_letter'', JStr []), (''resume_filename'', JNull),
              (''application_date'', JStr ''2025-10-03''), (''status'', JStr ''Hired''),
              (''reviewed_by'', JNull), (''review_date'', JNull),
              (''interview_date'', JNull),
              (''notes'',
               JStr ''Hired as Accountant in Finance department. Employee ID: 9'')]]))"
proof -
  let ?w1 = "(snd (job_apply sample_lib sample_application 5 sample_office))
               \<lparr>session := hr_session\<rparr>"
  let ?apps = "[JObj [(''applicant_id'', JInt 2), (''status'', JStr ''Rejected'')]]"
  have applied: "snd (job_apply sample_lib sample_application 5 sample_office) =
      sample_office
        \<lparr>files := (files sample_office)(APPLICANTS_FILE \<mapsto> Wellformed (JArr (?apps @
            [new_applicant sample_application 5 3 3 50000 JNull]))),
         flashes := [(''Your application has been submitted successfully! We will contact you soon.'',
                      ''success'')]\<rparr>"
    by (simp add: job_apply_def run_defs py_next_def key_is_def next_id_get_def
        max_plus_one_def new_applicant_def form_get_def form_get_default_def office_defs
        sample_defs)
  have h: "req_method sample_application = POST"
    "read_json_file (files sample_office) JOBS_FILE
       = Inr (JArr [JObj [(''job_id'', JInt 5), (''title'', JStr ''Accountant'')]])"
    "py_next (key_is ''job_id'' (JInt 5))
       (JArr [JObj [(''job_id'', JInt 5), (''title'', JStr ''Accountant'')]])
       = Inr (Some ([], JObj [(''job_id'', JInt 5), (''title'', JStr ''Accountant'')], []))"
    "read_json_file (files sample_office) APPLICANTS_FILE = Inr (JArr ?apps)"
    "\<forall>a\<in>set ?apps. has_int_id ''applicant_id'' a"
    "resume_accepted sample_lib sample_application"
    "py_int_default0 sample_lib (form_get sample_application ''experience_years'') = Inr 3"
    "py_float_default0 sample_lib (form_get sample_application ''expected_salary'') = Inr 50000"
    by (simp_all add: office_defs sample_defs py_next_def key_is_def has_int_id_def
        resume_accepted_def form_get_def)
  have g: "files ?w1 = files (snd (job_apply sample_lib sample_application 5 sample_office))"
    "map_of (session ?w1) ''user_id'' \<noteq> None"
    "one_of (sget (session ?w1) ''role'') [''Admin'', ''HR Staff'']"
    "req_method sample_onboarding = POST"
    "read_json_file (files ?w1) EMPLOYEES_FILE = Inr (JArr [emp_record 8 ''Ali'' ''Khan''])"
    "\<forall>e\<in>set [emp_record 8 ''Ali'' ''Khan'']. has_int_id ''employee_id'' e"
    "py_float_default0 sample_lib (form_get sample_onboarding ''salary'') = Inr 50000"
    unfolding applied
    by (simp_all add: office_defs sample_defs sget_def has_int_id_def form_get_def)
  have onboarded: "files (snd (applicant_onboard sample_lib sample_onboarding 3 ?w1)) =
      (files ?w1)(EMPLOYEES_FILE \<mapsto> Wellformed (JArr
         [emp_record 8 ''Ali'' ''Khan'',
          JObj [(''employee_id'', JInt 9), (''first_name'', JStr ''Omar''),
              (''last_name'', JStr ''Aziz''), (''cnic'', JStr ''35202''),
              (''email'', JStr ''omar@example.com''), (''contact'', JStr ''0300''),
              (''department'', JStr ''Finance''), (''designation'', JStr ''Accountant''),
              (''join_date'', JStr ''2025-11-01''), (''status'', JStr ''Active''),
              (''salary'', JFloat 50000)]]),
       APPLICANTS_FILE \<mapsto> Wellformed (JArr
       [JObj [(''applicant_id'', JInt 2), (''status'', JStr ''Rejected'')],
        JObj [(''applicant_id'', JInt 3), (''job_id'', JInt 5),
              (''first_name'', JStr ''Omar''), (''last_name'', JStr ''Aziz''),
              (''email'', JStr ''omar@example.com''), (''contact'', JStr ''0300''),
              (''cnic'', JStr ''35202''), (''experience_years'', JInt 3),
              (''current_company'', JStr []), (''expected_salary'', JFloat 50000),
              (''cover_letter'', JStr []), (''resume_filename'', JNull),
              (''application_date'', JStr ''2025-10-03''), (''status'', JStr ''Hired''),
              (''reviewed_by'', JNull), (''review_date'', JNull),
              (''interview_date'', JNull),
              (''notes'',
               JStr ''Hired as Accountant in Finance department. Employee ID: 9'')]]))"
    unfolding applied
    by (simp add: applicant_onboard_def applicant_onboard_view_def role_required_def run_defs
        py_next_def key_is_def next_id_sub_def max_plus_one_def new_applicant_def
        form_get_def form_get_default_def sget_def office_defs sample_defs)
  from apply_then_onboard [OF h g] show ?thesis
    unfolding onboarded unfolding applied
    by (simp add: office_defs)
qed

end
